theory Spec2Isabelle
  imports Complex_Main "HOL-Library.AList"
begin

section \<open>Python values and objects\<close>

text \<open>
  The values that occur as hyperparameters, keyword arguments and fitted attributes:
  \<^verbatim>\<open>None\<close>, \<^verbatim>\<open>bool\<close>, \<^verbatim>\<open>int\<close>, \<^verbatim>\<open>float\<close> (a finite float by its exact
  value, \<^verbatim>\<open>nan\<close> apart), \<^verbatim>\<open>str\<close> and lists (an array is the list of its elements).
  The module only stores, forwards and prints them; the one computation on a value is the
  comparison of \<^verbatim>\<open>components_num\<close> with 3 and 2.
\<close>

datatype pyval =
    PyNone
  | PyBool bool
  | PyInt int
  | PyFloat real
  | PyNaN
  | PyStr string
  | PyList "pyval list"

datatype pyerr =
    AttributeError
  | KeyError
  | TypeError
  | ValueError
  | LibraryError string

type_synonym pydict = "(string \<times> pyval) list"

text \<open>
  A \<^verbatim>\<open>pandas.DataFrame\<close> with the default index: the number of rows and the columns
  in their order, each column holding one value per row.
\<close>

record dataframe =
  nrows :: nat
  columns :: "(string \<times> pyval list) list"

text \<open>
  A scikit-learn estimator object: its class, the keyword arguments its constructor
  received (scikit-learn constructors store them and do nothing else), and the attributes
  \<^verbatim>\<open>fit\<close> has set on it.
\<close>

record estimator =
  est_class :: string
  kwargs :: pydict
  fitted :: pydict

text \<open>
  An instance attribute that the module reads is unbound (reading it raises
  \<^verbatim>\<open>AttributeError\<close>), bound to \<^verbatim>\<open>None\<close>, or bound to an object.
\<close>

datatype 'a slot = Unbound | IsNone | Holds 'a

text \<open>
  A workflow instance (\<^verbatim>\<open>self\<close>): the hyperparameters its constructor stored on it,
  \<^verbatim>\<open>self.model\<close>, \<^verbatim>\<open>self.naming\<close>, and \<^verbatim>\<open>self.X\<close>, which is a reference to a
  DataFrame (its address in the heap), not a DataFrame.
\<close>

record workflow =
  hyper :: pydict
  model :: "estimator slot"
  naming :: "string slot"
  X :: "nat slot"

text \<open>What is passed to a collaborator or to \<^verbatim>\<open>print\<close>.\<close>

datatype pyobj =
    Value pyval
  | Frame nat
  | Estimator estimator

datatype event =
    Print "pyobj list"
  | Call string "pyobj list"

text \<open>
  The collaborators of the module, which are not part of it: the base class
  \<^verbatim>\<open>WorkflowBase\<close> (what its \<^verbatim>\<open>__init__\<close> leaves on a fresh instance), the
  estimators' \<^verbatim>\<open>fit\<close> (the attributes it sets, or the error it raises), every other
  function the module calls (\<^verbatim>\<open>save_data\<close>, \<^verbatim>\<open>save_fig\<close>, the plotting routines, the
  metrics: the value returned or the error raised, given the heap and the arguments), the
  two output paths of \<^verbatim>\<open>global_variable\<close>, and what \<^verbatim>\<open>if v > k\<close> and
  \<^verbatim>\<open>if v == k\<close> make of a list or an array \<open>v\<close> and an int literal \<open>k\<close> (the branch
  taken, or the error raised: Python raises \<^verbatim>\<open>TypeError\<close> for a list above an int and
  finds no list equal to one; numpy compares an array elementwise, and the truth value of
  the result is that of its one element, or an error).
\<close>

record collaborators =
  WorkflowBase_init :: workflow
  estimator_fit :: "(nat \<Rightarrow> dataframe) \<Rightarrow> estimator \<Rightarrow> nat \<Rightarrow> pyerr + pydict"
  call :: "(nat \<Rightarrow> dataframe) \<Rightarrow> string \<Rightarrow> pyobj list \<Rightarrow> pyerr + pyval"
  MODEL_OUTPUT_IMAGE_PATH :: string
  DATASET_OUTPUT_PATH :: string
  sequence_gt :: "pyval list \<Rightarrow> int \<Rightarrow> pyerr + bool"
  sequence_eq :: "pyval list \<Rightarrow> int \<Rightarrow> pyerr + bool"

text \<open>
  The state a method runs in: the instance, the DataFrame objects by address, and the
  calls made to the outside so far, oldest first.
\<close>

record state =
  self :: workflow
  heap :: "nat \<Rightarrow> dataframe"
  trace :: "event list"

section \<open>Statements that may raise\<close>

type_synonym 'a py = "state \<Rightarrow> (pyerr + 'a) \<times> state"

definition py_return :: "'a \<Rightarrow> 'a py" where
  "py_return v s = (Inr v, s)"

definition py_raise :: "pyerr \<Rightarrow> 'a py" where
  "py_raise e s = (Inl e, s)"

definition py_lift :: "pyerr + 'a \<Rightarrow> 'a py" where
  "py_lift r s = (r, s)"

definition py_bind :: "'a py \<Rightarrow> ('a \<Rightarrow> 'b py) \<Rightarrow> 'b py" where
  "py_bind m f s = (case m s of (Inl e, s') \<Rightarrow> (Inl e, s') | (Inr v, s') \<Rightarrow> f v s')"

definition py_print :: "pyobj list \<Rightarrow> unit py" where
  "py_print args s = (Inr (), s\<lparr>trace := trace s @ [Print args]\<rparr>)"

text \<open>A call of a collaborator: it is recorded, then returns or raises.\<close>

definition py_call :: "collaborators \<Rightarrow> string \<Rightarrow> pyobj list \<Rightarrow> pyval py" where
  "py_call env f args s = (call env (heap s) f args, s\<lparr>trace := trace s @ [Call f args]\<rparr>)"

text \<open>\<^verbatim>\<open>self.a\<close> for one of the three attributes \<^verbatim>\<open>model\<close>, \<^verbatim>\<open>naming\<close>, \<^verbatim>\<open>X\<close>:
  \<open>None\<close> is Python's \<^verbatim>\<open>None\<close>.\<close>

definition self_attr :: "(workflow \<Rightarrow> 'a slot) \<Rightarrow> 'a option py" where
  "self_attr sel s =
     (case sel (self s) of
        Unbound \<Rightarrow> (Inl AttributeError, s)
      | IsNone \<Rightarrow> (Inr None, s)
      | Holds a \<Rightarrow> (Inr (Some a), s))"

text \<open>\<^verbatim>\<open>self.k\<close> and \<^verbatim>\<open>self.k = v\<close> for a hyperparameter.\<close>

definition self_hyper :: "string \<Rightarrow> pyval py" where
  "self_hyper k s =
     (case map_of (hyper (self s)) k of
        None \<Rightarrow> (Inl AttributeError, s)
      | Some v \<Rightarrow> (Inr v, s))"

definition set_hyper :: "string \<Rightarrow> pyval \<Rightarrow> unit py" where
  "set_hyper k v s = (Inr (), s\<lparr>self := (self s)\<lparr>hyper := AList.update k v (hyper (self s))\<rparr>\<rparr>)"

definition set_model :: "estimator \<Rightarrow> unit py" where
  "set_model e s = (Inr (), s\<lparr>self := (self s)\<lparr>model := Holds e\<rparr>\<rparr>)"

definition set_naming :: "string \<Rightarrow> unit py" where
  "set_naming n s = (Inr (), s\<lparr>self := (self s)\<lparr>naming := Holds n\<rparr>\<rparr>)"

definition set_X :: "nat \<Rightarrow> unit py" where
  "set_X r s = (Inr (), s\<lparr>self := (self s)\<lparr>X := Holds r\<rparr>\<rparr>)"

text \<open>\<^verbatim>\<open>m.a\<close> for \<open>m\<close> the value of \<^verbatim>\<open>self.model\<close>: \<^verbatim>\<open>None\<close> has no such attribute;
  an estimator has the attributes \<^verbatim>\<open>fit\<close> set and its constructor's parameters.\<close>

definition est_getattr :: "estimator \<Rightarrow> string \<Rightarrow> pyval option" where
  "est_getattr e a = (case map_of (fitted e) a of Some v \<Rightarrow> Some v | None \<Rightarrow> map_of (kwargs e) a)"

definition model_getattr :: "estimator option \<Rightarrow> string \<Rightarrow> pyerr + pyval" where
  "model_getattr m a =
     (case m of
        None \<Rightarrow> Inl AttributeError
      | Some e \<Rightarrow> (case est_getattr e a of None \<Rightarrow> Inl AttributeError | Some v \<Rightarrow> Inr v))"

text \<open>\<^verbatim>\<open>getattr(m, a, default)\<close>.\<close>

definition model_getattr_default :: "estimator option \<Rightarrow> string \<Rightarrow> pyval \<Rightarrow> pyval" where
  "model_getattr_default m a d =
     (case m of
        None \<Rightarrow> d
      | Some e \<Rightarrow> (case est_getattr e a of None \<Rightarrow> d | Some v \<Rightarrow> v))"

text \<open>The object a value of \<^verbatim>\<open>self.X\<close>, \<^verbatim>\<open>self.model\<close> or \<^verbatim>\<open>self.naming\<close> is.\<close>

definition frame_obj :: "nat option \<Rightarrow> pyobj" where
  "frame_obj x = (case x of None \<Rightarrow> Value PyNone | Some r \<Rightarrow> Frame r)"

definition est_obj :: "estimator option \<Rightarrow> pyobj" where
  "est_obj m = (case m of None \<Rightarrow> Value PyNone | Some e \<Rightarrow> Estimator e)"

definition str_obj :: "string option \<Rightarrow> pyobj" where
  "str_obj n = (case n of None \<Rightarrow> Value PyNone | Some t \<Rightarrow> Value (PyStr t))"

text \<open>\<^verbatim>\<open>f"{n}"\<close> for \<open>n\<close> a string or \<^verbatim>\<open>None\<close>.\<close>

definition fstr :: "string option \<Rightarrow> string" where
  "fstr n = (case n of None \<Rightarrow> ''None'' | Some t \<Rightarrow> t)"

subsection \<open>DataFrame item access\<close>

text \<open>
  \<^verbatim>\<open>df[k] = v\<close> as pandas does it for a string key and the default index. A list of one
  value per row becomes the column \<open>k\<close>: in the place of the column of that name when
  there is one, after the last column otherwise. A list of another length raises
  \<^verbatim>\<open>ValueError\<close>, except on a frame without rows, which takes the list's length as its
  index and fills the columns it had with \<^verbatim>\<open>nan\<close>. A value that is not a list fills the
  column.
\<close>

definition df_setitem :: "dataframe \<Rightarrow> string \<Rightarrow> pyval \<Rightarrow> pyerr + dataframe" where
  "df_setitem df k v =
     (case v of
        PyList vs \<Rightarrow>
          if nrows df = 0 \<and> vs \<noteq> [] then
            Inr \<lparr>nrows = length vs,
                 columns = AList.update k vs
                   (map (\<lambda>(c, old). (c, replicate (length vs) PyNaN)) (columns df))\<rparr>
          else if length vs = nrows df then
            Inr (df\<lparr>columns := AList.update k vs (columns df)\<rparr>)
          else Inl ValueError
      | _ \<Rightarrow> Inr (df\<lparr>columns := AList.update k (replicate (nrows df) v) (columns df)\<rparr>))"

text \<open>\<^verbatim>\<open>x[k]\<close> and \<^verbatim>\<open>x[k] = v\<close> for \<open>x\<close> the value of \<^verbatim>\<open>self.X\<close>: \<^verbatim>\<open>None\<close> supports
  neither; a DataFrame without the column \<open>k\<close> raises \<^verbatim>\<open>KeyError\<close> on reading.\<close>

definition X_getitem :: "nat option \<Rightarrow> string \<Rightarrow> pyval py" where
  "X_getitem x k s =
     (case x of
        None \<Rightarrow> (Inl TypeError, s)
      | Some r \<Rightarrow>
          (case map_of (columns (heap s r)) k of
             None \<Rightarrow> (Inl KeyError, s)
           | Some col \<Rightarrow> (Inr (PyList col), s)))"

definition X_setitem :: "nat option \<Rightarrow> string \<Rightarrow> pyval \<Rightarrow> unit py" where
  "X_setitem x k v s =
     (case x of
        None \<Rightarrow> (Inl TypeError, s)
      | Some r \<Rightarrow>
          (case df_setitem (heap s r) k v of
             Inl e \<Rightarrow> (Inl e, s)
           | Inr df \<Rightarrow> (Inr (), s\<lparr>heap := (heap s)(r := df)\<rparr>)))"

subsection \<open>Keyword arguments and comparisons\<close>

text \<open>\<^verbatim>\<open>kwargs[k]\<close> for the dictionary of keyword arguments a method received.\<close>

definition kwarg :: "pydict \<Rightarrow> string \<Rightarrow> pyerr + pyval" where
  "kwarg kw k = (case map_of kw k of None \<Rightarrow> Inl KeyError | Some v \<Rightarrow> Inr v)"

text \<open>\<^verbatim>\<open>if v > k\<close> and \<^verbatim>\<open>if v == k\<close> for an int literal \<open>k\<close>: the branch taken, or
  the error raised. Numbers compare by value (\<^verbatim>\<open>True\<close> is 1, \<^verbatim>\<open>nan\<close> is neither above
  nor equal to anything); \<^verbatim>\<open>None\<close> and a string are not ordered against an int, and
  equal none; for a list or an array the answer is the collaborators'.\<close>

fun py_gt :: "collaborators \<Rightarrow> pyval \<Rightarrow> int \<Rightarrow> pyerr + bool" where
  "py_gt env (PyInt n) k = Inr (n > k)"
| "py_gt env (PyBool b) k = Inr ((if b then 1 else 0) > k)"
| "py_gt env (PyFloat x) k = Inr (x > of_int k)"
| "py_gt env PyNaN k = Inr False"
| "py_gt env PyNone k = Inl TypeError"
| "py_gt env (PyStr t) k = Inl TypeError"
| "py_gt env (PyList vs) k = sequence_gt env vs k"

fun py_eq :: "collaborators \<Rightarrow> pyval \<Rightarrow> int \<Rightarrow> pyerr + bool" where
  "py_eq env (PyInt n) k = Inr (n = k)"
| "py_eq env (PyBool b) k = Inr ((if b then 1 else 0) = k)"
| "py_eq env (PyFloat x) k = Inr (x = of_int k)"
| "py_eq env PyNaN k = Inr False"
| "py_eq env PyNone k = Inr False"
| "py_eq env (PyStr t) k = Inr False"
| "py_eq env (PyList vs) k = sequence_eq env vs k"

section \<open>ClusteringWorkflowBase\<close>

text \<open>\<^verbatim>\<open>__init__\<close>: \<^verbatim>\<open>super().__init__()\<close> on the fresh instance.\<close>

definition ClusteringWorkflowBase_init :: "collaborators \<Rightarrow> unit py" where
  "ClusteringWorkflowBase_init env s = (Inr (), s\<lparr>self := WorkflowBase_init env\<rparr>)"

text \<open>
  \<^verbatim>\<open>fit\<close>: \<^verbatim>\<open>self.X = X\<close>, then \<^verbatim>\<open>self.model.fit(X)\<close>, which sets the fitted attributes
  on the estimator \<^verbatim>\<open>self.model\<close> refers to. The argument \<open>r\<close> is the reference the
  caller passes.
\<close>

definition model_fit :: "collaborators \<Rightarrow> estimator \<Rightarrow> nat \<Rightarrow> unit py" where
  "model_fit env e r s =
     (case estimator_fit env (heap s) e r of
        Inl err \<Rightarrow> (Inl err, s\<lparr>trace := trace s @ [Call ''fit'' [Estimator e, Frame r]]\<rparr>)
      | Inr d \<Rightarrow>
          (Inr (), s\<lparr>trace := trace s @ [Call ''fit'' [Estimator e, Frame r]],
                     self := (self s)\<lparr>model := Holds (e\<lparr>fitted := d\<rparr>)\<rparr>\<rparr>))"

definition fit :: "collaborators \<Rightarrow> nat \<Rightarrow> unit py" where
  "fit env r =
     py_bind (set_X r) (\<lambda>_.
     py_bind (self_attr model) (\<lambda>m.
       case m of
         None \<Rightarrow> py_raise AttributeError
       | Some e \<Rightarrow> model_fit env e r))"

definition no_cluster_centers :: pyval where
  "no_cluster_centers = PyStr ''This class don not have cluster_centers_''"

definition get_cluster_centers :: "pyval py" where
  "get_cluster_centers =
     py_bind (py_print [Value (PyStr ''-----* Clustering Centers *-----'')]) (\<lambda>_.
     py_bind (self_attr model) (\<lambda>m.
     py_bind (py_print [Value (model_getattr_default m ''cluster_centers_'' no_cluster_centers)]) (\<lambda>_.
     py_bind (self_attr model) (\<lambda>m'.
     py_return (model_getattr_default m' ''cluster_centers_'' no_cluster_centers)))))"

definition get_labels :: "collaborators \<Rightarrow> unit py" where
  "get_labels env =
     py_bind (py_print [Value (PyStr ''-----* Clustering Labels *-----'')]) (\<lambda>_.
     py_bind (self_attr model) (\<lambda>m.
     py_bind (py_lift (model_getattr m ''labels_'')) (\<lambda>labels.
     py_bind (self_attr X) (\<lambda>x.
     py_bind (X_setitem x ''clustering result'' labels) (\<lambda>_.
     py_bind (self_attr X) (\<lambda>x'.
     py_bind (py_print [frame_obj x']) (\<lambda>_.
     py_bind (self_attr X) (\<lambda>data.
     py_bind (self_attr naming) (\<lambda>n.
     py_bind (py_call env ''save_data''
                [frame_obj data, Value (PyStr (fstr n)), Value (PyStr (DATASET_OUTPUT_PATH env))]) (\<lambda>_.
     py_return ()))))))))))"

section \<open>The concrete classes\<close>

datatype clustering_class =
    KMeansClustering
  | DBSCANClustering
  | AffinityPropagationClustering
  | MeanShiftClustering
  | SpectralClustering
  | WardHierarchicalClustering
  | AgglomerativeClustering
  | OPTICSClustering
  | GaussianMixturesClustering
  | BIRCHClusteringClustering
  | BisectingKMeansClustering

text \<open>The class attribute \<^verbatim>\<open>name\<close>.\<close>

fun name :: "clustering_class \<Rightarrow> string" where
  "name KMeansClustering = ''KMeans''"
| "name DBSCANClustering = ''DBSCAN''"
| "name AffinityPropagationClustering = ''AffinityPropagation''"
| "name MeanShiftClustering = ''MeanShift''"
| "name SpectralClustering = ''Spectral''"
| "name WardHierarchicalClustering = ''WardHierarchical''"
| "name AgglomerativeClustering = ''Agglomerative''"
| "name OPTICSClustering = ''OPTICS''"
| "name GaussianMixturesClustering = ''GaussianMixtures''"
| "name BIRCHClusteringClustering = ''BIRCHClustering''"
| "name BisectingKMeansClustering = ''BisectingKMeans''"

text \<open>The eight classes that declare a name and nothing else.\<close>

definition placeholders :: "clustering_class list" where
  "placeholders =
     [MeanShiftClustering, SpectralClustering, WardHierarchicalClustering,
      AgglomerativeClustering, OPTICSClustering, GaussianMixturesClustering,
      BIRCHClusteringClustering, BisectingKMeansClustering]"

subsection \<open>Constructor parameters\<close>

text \<open>The parameters of each \<^verbatim>\<open>__init__\<close>, as bound at a call: the caller's value, or
  the default of the signature when the caller gives none.\<close>

record KMeans_params =
  n_clusters :: pyval
  init :: pyval
  n_init :: pyval
  max_iter :: pyval
  tol :: pyval
  verbose :: pyval
  random_state :: pyval
  copy_x :: pyval
  algorithm :: pyval

record DBSCAN_params =
  eps :: pyval
  min_samples :: pyval
  metric :: pyval
  metric_params :: pyval
  algorithm :: pyval
  leaf_size :: pyval
  p :: pyval
  n_jobs :: pyval

record AffinityPropagation_params =
  damping :: pyval
  max_iter :: pyval
  convergence_iter :: pyval
  copy :: pyval
  preference :: pyval
  affinity :: pyval
  verbose :: pyval
  random_state :: pyval

subsection \<open>KMeansClustering\<close>

definition KMeansClustering_defaults :: KMeans_params where
  "KMeansClustering_defaults =
     \<lparr>n_clusters = PyInt 8, init = PyStr ''k-means++'', n_init = PyInt 10,
      KMeans_params.max_iter = PyInt 300, tol = PyFloat (1 / 10000),
      KMeans_params.verbose = PyInt 0, KMeans_params.random_state = PyNone,
      copy_x = PyBool True, KMeans_params.algorithm = PyStr ''auto''\<rparr>"

definition KMeansClustering_init :: "collaborators \<Rightarrow> KMeans_params \<Rightarrow> unit py" where
  "KMeansClustering_init env a =
     py_bind (ClusteringWorkflowBase_init env) (\<lambda>_.
     py_bind (set_hyper ''n_clusters'' (n_clusters a)) (\<lambda>_.
     py_bind (set_hyper ''init'' (init a)) (\<lambda>_.
     py_bind (set_hyper ''max_iter'' (KMeans_params.max_iter a)) (\<lambda>_.
     py_bind (set_hyper ''tol'' (tol a)) (\<lambda>_.
     py_bind (set_hyper ''n_init'' (n_init a)) (\<lambda>_.
     py_bind (set_hyper ''verbose'' (KMeans_params.verbose a)) (\<lambda>_.
     py_bind (set_hyper ''random_state'' (KMeans_params.random_state a)) (\<lambda>_.
     py_bind (set_hyper ''copy_x'' (copy_x a)) (\<lambda>_.
     py_bind (set_hyper ''algorithm'' (KMeans_params.algorithm a)) (\<lambda>_.
     py_bind (self_hyper ''n_clusters'') (\<lambda>v1.
     py_bind (self_hyper ''init'') (\<lambda>v2.
     py_bind (self_hyper ''n_init'') (\<lambda>v3.
     py_bind (self_hyper ''max_iter'') (\<lambda>v4.
     py_bind (self_hyper ''tol'') (\<lambda>v5.
     py_bind (self_hyper ''verbose'') (\<lambda>v6.
     py_bind (self_hyper ''random_state'') (\<lambda>v7.
     py_bind (self_hyper ''copy_x'') (\<lambda>v8.
     py_bind (self_hyper ''algorithm'') (\<lambda>v9.
     py_bind (set_model
       \<lparr>est_class = ''KMeans'',
        kwargs = [(''n_clusters'', v1), (''init'', v2), (''n_init'', v3), (''max_iter'', v4),
                  (''tol'', v5), (''verbose'', v6), (''random_state'', v7), (''copy_x'', v8),
                  (''algorithm'', v9)],
        fitted = []\<rparr>) (\<lambda>_.
     set_naming (name KMeansClustering)))))))))))))))))))))"

definition KMeans_get_scores :: "collaborators \<Rightarrow> unit py" where
  "KMeans_get_scores env =
     py_bind (py_print [Value (PyStr ''-----* KMeans Scores *-----'')]) (\<lambda>_.
     py_bind (self_attr model) (\<lambda>m.
     py_bind (py_lift (model_getattr m ''inertia_'')) (\<lambda>inertia.
     py_bind (py_print [Value (PyStr ''Inertia Score: ''), Value inertia]) (\<lambda>_.
     py_bind (self_attr X) (\<lambda>x1.
     py_bind (self_attr model) (\<lambda>m1.
     py_bind (py_lift (model_getattr m1 ''labels_'')) (\<lambda>l1.
     py_bind (py_call env ''metrics.calinski_harabasz_score'' [frame_obj x1, Value l1]) (\<lambda>ch.
     py_bind (py_print [Value (PyStr ''Calinski Harabasz Score: ''), Value ch]) (\<lambda>_.
     py_bind (self_attr X) (\<lambda>x2.
     py_bind (self_attr model) (\<lambda>m2.
     py_bind (py_lift (model_getattr m2 ''labels_'')) (\<lambda>l2.
     py_bind (py_call env ''metrics.silhouette_score'' [frame_obj x2, Value l2]) (\<lambda>sil.
     py_print [Value (PyStr ''Silhouette Score: ''), Value sil])))))))))))))"

definition KMeans_plot_silhouette_diagram ::
  "collaborators \<Rightarrow> pyobj \<Rightarrow> pyobj \<Rightarrow> pyobj \<Rightarrow> pyobj \<Rightarrow> string option \<Rightarrow> string \<Rightarrow> unit py" where
  "KMeans_plot_silhouette_diagram env data cluster_labels cluster_centers n algorithm_name store_path =
     py_bind (py_print [Value (PyStr ''-----* Silhouette Diagram *-----'')]) (\<lambda>_.
     py_bind (py_call env ''plot_silhouette_diagram''
                [data, cluster_labels, cluster_centers, n, str_obj algorithm_name]) (\<lambda>_.
     py_bind (py_call env ''save_fig''
                [Value (PyStr (''Silhouette Diagram - '' @ fstr algorithm_name)),
                 Value (PyStr store_path)]) (\<lambda>_.
     py_return ())))"

definition KMeans_scatter2d ::
  "collaborators \<Rightarrow> pyobj \<Rightarrow> pyobj \<Rightarrow> string option \<Rightarrow> string \<Rightarrow> unit py" where
  "KMeans_scatter2d env data cluster_labels algorithm_name store_path =
     py_bind (py_print [Value (PyStr ''-----* Bi-plot *-----'')]) (\<lambda>_.
     py_bind (py_call env ''scatter2d'' [data, cluster_labels, str_obj algorithm_name]) (\<lambda>_.
     py_bind (py_call env ''save_fig''
                [Value (PyStr (''Bi-plot - '' @ fstr algorithm_name)), Value (PyStr store_path)]) (\<lambda>_.
     py_return ())))"

definition KMeans_scatter3d :: "collaborators \<Rightarrow> unit py" where
  "KMeans_scatter3d env =
     py_bind (py_print [Value (PyStr ''-----* Tri-plot *-----'')]) (\<lambda>_.
     py_bind (py_call env ''scatter3d'' []) (\<lambda>_.
     py_return ()))"

text \<open>\<^verbatim>\<open>special_components(**kwargs)\<close>; \<open>kw\<close> is the dictionary of the keyword
  arguments.\<close>

definition KMeans_special_components :: "collaborators \<Rightarrow> pydict \<Rightarrow> unit py" where
  "KMeans_special_components env kw =
     py_bind (KMeans_get_scores env) (\<lambda>_.
     py_bind (self_attr X) (\<lambda>data.
     py_bind (self_attr X) (\<lambda>x.
     py_bind (X_getitem x ''clustering result'') (\<lambda>cluster_labels.
     py_bind get_cluster_centers (\<lambda>centers.
     py_bind (self_hyper ''n_clusters'') (\<lambda>n.
     py_bind (self_attr naming) (\<lambda>algorithm_name.
     py_bind (KMeans_plot_silhouette_diagram env (frame_obj data) (Value cluster_labels)
                (Value centers) (Value n) algorithm_name (MODEL_OUTPUT_IMAGE_PATH env)) (\<lambda>_.
     py_bind (py_lift (kwarg kw ''components_num'')) (\<lambda>c1.
     py_bind (py_lift (py_gt env c1 3)) (\<lambda>above.
       if above then KMeans_scatter3d env
       else
         py_bind (py_lift (kwarg kw ''components_num'')) (\<lambda>c2.
         py_bind (py_lift (py_eq env c2 3)) (\<lambda>three.
           if three then KMeans_scatter3d env
           else
             py_bind (py_lift (kwarg kw ''components_num'')) (\<lambda>c3.
             py_bind (py_lift (py_eq env c3 2)) (\<lambda>two.
               if two then
                 py_bind (self_attr X) (\<lambda>data2.
                 py_bind (self_attr X) (\<lambda>x2.
                 py_bind (X_getitem x2 ''clustering result'') (\<lambda>labels2.
                 py_bind (self_attr naming) (\<lambda>name2.
                 KMeans_scatter2d env (frame_obj data2) (Value labels2) name2
                   (MODEL_OUTPUT_IMAGE_PATH env)))))
               else py_return ()))))))))))))))"

subsection \<open>DBSCANClustering\<close>

definition DBSCANClustering_defaults :: DBSCAN_params where
  "DBSCANClustering_defaults =
     \<lparr>eps = PyFloat (1 / 2), min_samples = PyInt 5, metric = PyStr ''euclidean'',
      metric_params = PyNone, DBSCAN_params.algorithm = PyStr ''auto'', leaf_size = PyInt 30,
      p = PyNone, n_jobs = PyNone\<rparr>"

definition DBSCANClustering_init :: "collaborators \<Rightarrow> DBSCAN_params \<Rightarrow> unit py" where
  "DBSCANClustering_init env a =
     py_bind (ClusteringWorkflowBase_init env) (\<lambda>_.
     py_bind (set_hyper ''eps'' (eps a)) (\<lambda>_.
     py_bind (set_hyper ''min_samples'' (min_samples a)) (\<lambda>_.
     py_bind (set_hyper ''metric'' (metric a)) (\<lambda>_.
     py_bind (set_hyper ''metric_params'' (metric_params a)) (\<lambda>_.
     py_bind (set_hyper ''algorithm'' (DBSCAN_params.algorithm a)) (\<lambda>_.
     py_bind (set_hyper ''leaf_size'' (leaf_size a)) (\<lambda>_.
     py_bind (set_hyper ''p'' (p a)) (\<lambda>_.
     py_bind (set_hyper ''n_jobs'' (n_jobs a)) (\<lambda>_.
     py_bind (self_hyper ''eps'') (\<lambda>v1.
     py_bind (self_hyper ''min_samples'') (\<lambda>v2.
     py_bind (self_hyper ''metric'') (\<lambda>v3.
     py_bind (self_hyper ''metric_params'') (\<lambda>v4.
     py_bind (self_hyper ''algorithm'') (\<lambda>v5.
     py_bind (self_hyper ''leaf_size'') (\<lambda>v6.
     py_bind (self_hyper ''p'') (\<lambda>v7.
     py_bind (self_hyper ''n_jobs'') (\<lambda>v8.
     py_bind (set_model
       \<lparr>est_class = ''DBSCAN'',
        kwargs = [(''eps'', v1), (''min_samples'', v2), (''metric'', v3), (''metric_params'', v4),
                  (''algorithm'', v5), (''leaf_size'', v6), (''p'', v7), (''n_jobs'', v8)],
        fitted = []\<rparr>) (\<lambda>_.
     set_naming (name DBSCANClustering)))))))))))))))))))"

definition DBSCAN_clustering_result_plot ::
  "collaborators \<Rightarrow> pyobj \<Rightarrow> pyobj \<Rightarrow> string option \<Rightarrow> string \<Rightarrow> unit py" where
  "DBSCAN_clustering_result_plot env data trained_model algorithm_name store_path =
     py_bind (py_print [Value (PyStr ''-------** dbscan_clustering_result_2d_plot **----------'')]) (\<lambda>_.
     py_bind (py_call env ''dbscan_result_plot''
                [data, trained_model, str_obj algorithm_name]) (\<lambda>_.
     py_bind (py_call env ''save_fig''
                [Value (PyStr (''Plot - '' @ fstr algorithm_name @ '' - 2D'')),
                 Value (PyStr store_path)]) (\<lambda>_.
     py_return ())))"

definition DBSCAN_special_components :: "collaborators \<Rightarrow> pydict \<Rightarrow> unit py" where
  "DBSCAN_special_components env kw =
     py_bind (self_attr X) (\<lambda>x.
     py_bind (self_attr model) (\<lambda>m.
     py_bind (self_attr naming) (\<lambda>n.
     DBSCAN_clustering_result_plot env (frame_obj x) (est_obj m) n (MODEL_OUTPUT_IMAGE_PATH env))))"

subsection \<open>AffinityPropagationClustering\<close>

definition AffinityPropagationClustering_defaults :: AffinityPropagation_params where
  "AffinityPropagationClustering_defaults =
     \<lparr>damping = PyFloat (1 / 2), max_iter = PyInt 200, convergence_iter = PyInt 15,
      copy = PyBool True, preference = PyNone, affinity = PyStr ''euclidean'',
      verbose = PyBool False, random_state = PyNone\<rparr>"

definition AffinityPropagationClustering_init ::
  "collaborators \<Rightarrow> AffinityPropagation_params \<Rightarrow> unit py" where
  "AffinityPropagationClustering_init env a =
     py_bind (ClusteringWorkflowBase_init env) (\<lambda>_.
     py_bind (set_hyper ''damping'' (damping a)) (\<lambda>_.
     py_bind (set_hyper ''max_iter'' (max_iter a)) (\<lambda>_.
     py_bind (set_hyper ''convergence_iter'' (convergence_iter a)) (\<lambda>_.
     py_bind (set_hyper ''copy'' (copy a)) (\<lambda>_.
     py_bind (set_hyper ''verbose'' (verbose a)) (\<lambda>_.
     py_bind (set_hyper ''preference'' (preference a)) (\<lambda>_.
     py_bind (set_hyper ''affinity'' (affinity a)) (\<lambda>_.
     py_bind (set_hyper ''random_state'' (random_state a)) (\<lambda>_.
     py_bind (self_hyper ''damping'') (\<lambda>v1.
     py_bind (self_hyper ''max_iter'') (\<lambda>v2.
     py_bind (self_hyper ''convergence_iter'') (\<lambda>v3.
     py_bind (self_hyper ''copy'') (\<lambda>v4.
     py_bind (set_model
       \<lparr>est_class = ''AffinityPropagation'',
        kwargs = [(''damping'', v1), (''max_iter'', v2), (''convergence_iter'', v3),
                  (''copy'', v4), (''preference'', PyNone), (''affinity'', PyStr ''euclidean''),
                  (''verbose'', PyBool False), (''random_state'', PyNone)],
        fitted = []\<rparr>) (\<lambda>_.
     set_naming (name AffinityPropagationClustering)))))))))))))))"

subsection \<open>The placeholder classes\<close>

text \<open>They define no \<^verbatim>\<open>__init__\<close>: constructing one runs the inherited one.\<close>

definition placeholder_init :: "collaborators \<Rightarrow> clustering_class \<Rightarrow> unit py" where
  "placeholder_init env c = ClusteringWorkflowBase_init env"

section \<open>Vocabulary of the properties\<close>

text \<open>The scatter plot calls among recorded events: those of \<^verbatim>\<open>scatter2d\<close> and
  \<^verbatim>\<open>scatter3d\<close>.\<close>

definition scatter_calls :: "event list \<Rightarrow> event list" where
  "scatter_calls t =
     filter (\<lambda>ev. case ev of Print a \<Rightarrow> False
                  | Call f a \<Rightarrow> f = ''scatter2d'' \<or> f = ''scatter3d'') t"

text \<open>The value of a number (\<^verbatim>\<open>True\<close> is 1 and \<^verbatim>\<open>False\<close> is 0); \<^verbatim>\<open>nan\<close>, \<^verbatim>\<open>None\<close>,
  strings, lists and arrays have none.\<close>

fun number_value :: "pyval \<Rightarrow> real option" where
  "number_value (PyInt n) = Some (of_int n)"
| "number_value (PyBool b) = Some (if b then 1 else 0)"
| "number_value (PyFloat x) = Some x"
| "number_value PyNaN = None"
| "number_value PyNone = None"
| "number_value (PyStr t) = None"
| "number_value (PyList vs) = None"

text \<open>
  What a KMeans workflow prints and calls in \<^verbatim>\<open>special_components\<close> before the branch on
  \<^verbatim>\<open>components_num\<close>, when nothing raises: the events of \<^verbatim>\<open>_get_scores\<close> (with the
  inertia \<open>i\<close>, the labels \<open>l\<close> and the two scores \<open>ch\<close> and \<open>sil\<close> the metrics return), then
  those of \<^verbatim>\<open>get_cluster_centers\<close> and \<^verbatim>\<open>_plot_silhouette_diagram\<close>; and the state they
  leave.
\<close>

definition KMeans_scores_events :: "nat \<Rightarrow> pyval \<Rightarrow> pyval \<Rightarrow> pyval \<Rightarrow> pyval \<Rightarrow> event list" where
  "KMeans_scores_events r i l ch sil =
     [Print [Value (PyStr ''-----* KMeans Scores *-----'')],
      Print [Value (PyStr ''Inertia Score: ''), Value i],
      Call ''metrics.calinski_harabasz_score'' [Frame r, Value l],
      Print [Value (PyStr ''Calinski Harabasz Score: ''), Value ch],
      Call ''metrics.silhouette_score'' [Frame r, Value l],
      Print [Value (PyStr ''Silhouette Score: ''), Value sil]]"

definition KMeans_silhouette_events ::
  "collaborators \<Rightarrow> nat \<Rightarrow> estimator \<Rightarrow> pyval list \<Rightarrow> pyval \<Rightarrow> string \<Rightarrow> event list" where
  "KMeans_silhouette_events env r e col n nm =
     [Print [Value (PyStr ''-----* Clustering Centers *-----'')],
      Print [Value (model_getattr_default (Some e) ''cluster_centers_'' no_cluster_centers)],
      Print [Value (PyStr ''-----* Silhouette Diagram *-----'')],
      Call ''plot_silhouette_diagram''
        [Frame r, Value (PyList col),
         Value (model_getattr_default (Some e) ''cluster_centers_'' no_cluster_centers),
         Value n, Value (PyStr nm)],
      Call ''save_fig''
        [Value (PyStr (''Silhouette Diagram - '' @ nm)),
         Value (PyStr (MODEL_OUTPUT_IMAGE_PATH env))]]"

definition KMeans_before_branch ::
  "collaborators \<Rightarrow> state \<Rightarrow> nat \<Rightarrow> estimator \<Rightarrow> pyval \<Rightarrow> pyval \<Rightarrow> pyval \<Rightarrow> pyval \<Rightarrow>
   pyval list \<Rightarrow> pyval \<Rightarrow> string \<Rightarrow> state" where
  "KMeans_before_branch env s r e i l ch sil col n nm =
     s\<lparr>trace := trace s @ KMeans_scores_events r i l ch sil @
                 KMeans_silhouette_events env r e col n nm\<rparr>"

section \<open>Example inputs\<close>

text \<open>
  A table of two samples and one feature; collaborators that never raise, with a
  \<^verbatim>\<open>WorkflowBase\<close> that assigns nothing, a \<^verbatim>\<open>fit\<close> that sets what scikit-learn's
  DBSCAN sets on a DBSCAN estimator (labels, no centers) and what its KMeans sets on any
  other, and sequences compared as Python compares a list; and a fresh instance in a heap
  that holds the table at every address.
\<close>

definition example_frame :: dataframe where
  "example_frame = \<lparr>nrows = 2, columns = [(''SiO2'', [PyFloat 1, PyFloat 2])]\<rparr>"

definition example_env :: collaborators where
  "example_env =
     \<lparr>WorkflowBase_init = \<lparr>hyper = [], model = Unbound, naming = Unbound, X = Unbound\<rparr>,
      estimator_fit = (\<lambda>h e r.
        if est_class e = ''DBSCAN'' then Inr [(''labels_'', PyList [PyInt 0, PyInt (- 1)])]
        else Inr [(''cluster_centers_'', PyList [PyList [PyFloat 1], PyList [PyFloat 2]]),
                  (''labels_'', PyList [PyInt 0, PyInt 1]), (''inertia_'', PyFloat 0)]),
      call = (\<lambda>h f args. Inr PyNone),
      MODEL_OUTPUT_IMAGE_PATH = ''image'',
      DATASET_OUTPUT_PATH = ''dataset'',
      sequence_gt = (\<lambda>vs k. Inl TypeError),
      sequence_eq = (\<lambda>vs k. Inr False)\<rparr>"

definition example_start :: state where
  "example_start =
     \<lparr>self = \<lparr>hyper = [], model = Unbound, naming = Unbound, X = Unbound\<rparr>,
      heap = (\<lambda>r. example_frame), trace = []\<rparr>"

text \<open>A KMeans workflow constructed with two clusters and fitted on the table at address 0,
  the same after \<^verbatim>\<open>get_labels\<close>, and a DBSCAN workflow constructed with the defaults and
  fitted on that table.\<close>

definition example_KMeans_fitted :: state where
  "example_KMeans_fitted =
     snd (py_bind
            (KMeansClustering_init example_env (KMeansClustering_defaults\<lparr>n_clusters := PyInt 2\<rparr>))
            (\<lambda>_. fit example_env 0) example_start)"

definition example_KMeans_labelled :: state where
  "example_KMeans_labelled = snd (get_labels example_env example_KMeans_fitted)"

definition example_DBSCAN_fitted :: state where
  "example_DBSCAN_fitted =
     snd (py_bind (DBSCANClustering_init example_env DBSCANClustering_defaults)
            (\<lambda>_. fit example_env 0) example_start)"

definition example_KMeans_estimator :: estimator where
  "example_KMeans_estimator =
     \<lparr>est_class = ''KMeans'',
      kwargs = [(''n_clusters'', PyInt 2), (''init'', PyStr ''k-means++''),
                (''n_init'', PyInt 10), (''max_iter'', PyInt 300),
                (''tol'', PyFloat (1 / 10000)), (''verbose'', PyInt 0),
                (''random_state'', PyNone), (''copy_x'', PyBool True),
                (''algorithm'', PyStr ''auto'')],
      fitted = [(''cluster_centers_'', PyList [PyList [PyFloat 1], PyList [PyFloat 2]]),
                (''labels_'', PyList [PyInt 0, PyInt 1]), (''inertia_'', PyFloat 0)]\<rparr>"

definition example_DBSCAN_estimator :: estimator where
  "example_DBSCAN_estimator =
     \<lparr>est_class = ''DBSCAN'',
      kwargs = [(''eps'', PyFloat (1 / 2)), (''min_samples'', PyInt 5),
                (''metric'', PyStr ''euclidean''), (''metric_params'', PyNone),
                (''algorithm'', PyStr ''auto''), (''leaf_size'', PyInt 30),
                (''p'', PyNone), (''n_jobs'', PyNone)],
      fitted = [(''labels_'', PyList [PyInt 0, PyInt (- 1)])]\<rparr>"

section \<open>Auxiliary facts\<close>

lemmas py_defs = py_return_def py_raise_def py_lift_def py_bind_def py_print_def py_call_def
  self_attr_def self_hyper_def set_hyper_def set_model_def set_naming_def set_X_def

lemma map_of_update: "map_of (AList.update k v al) k' = (if k' = k then Some v else map_of al k')"
  by (simp add: update_conv')

lemma update_absent: "map_of al k = None \<Longrightarrow> AList.update k v al = al @ [(k, v)]"
  by (induction al) (auto split: if_splits)

lemma scatter_calls_append: "scatter_calls (a @ b) = scatter_calls a @ scatter_calls b"
  by (simp add: scatter_calls_def)

lemma get_cluster_centers_eq:
  "get_cluster_centers s =
     (case model (self s) of
        Unbound \<Rightarrow> (Inl AttributeError,
          s\<lparr>trace := trace s @ [Print [Value (PyStr ''-----* Clustering Centers *-----'')]]\<rparr>)
      | IsNone \<Rightarrow> (Inr no_cluster_centers,
          s\<lparr>trace := trace s @ [Print [Value (PyStr ''-----* Clustering Centers *-----'')],
                                 Print [Value no_cluster_centers]]\<rparr>)
      | Holds e \<Rightarrow>
          (Inr (case est_getattr e ''cluster_centers_'' of None \<Rightarrow> no_cluster_centers | Some v \<Rightarrow> v),
           s\<lparr>trace := trace s @ [Print [Value (PyStr ''-----* Clustering Centers *-----'')],
             Print [Value (case est_getattr e ''cluster_centers_'' of
                             None \<Rightarrow> no_cluster_centers | Some v \<Rightarrow> v)]]\<rparr>))"
  by (cases "model (self s)") (simp_all add: get_cluster_centers_def py_defs model_getattr_default_def)

lemma scatter_calls_Nil: "scatter_calls [] = []"
  by (simp add: scatter_calls_def)

lemma scatter_calls_Print: "scatter_calls (Print a # t) = scatter_calls t"
  by (simp add: scatter_calls_def)

lemma scatter_calls_Call:
  "scatter_calls (Call f a # t) =
     (if f = ''scatter2d'' \<or> f = ''scatter3d'' then Call f a # scatter_calls t
      else scatter_calls t)"
  by (simp add: scatter_calls_def)

lemma KMeans_get_scores_ok:
  assumes "model (self s) = Holds e" "est_getattr e ''inertia_'' = Some i"
    "est_getattr e ''labels_'' = Some l" "X (self s) = Holds r"
    "call env (heap s) ''metrics.calinski_harabasz_score'' [Frame r, Value l] = Inr ch"
    "call env (heap s) ''metrics.silhouette_score'' [Frame r, Value l] = Inr sil"
  shows "KMeans_get_scores env s =
     (Inr (), s\<lparr>trace := trace s @ KMeans_scores_events r i l ch sil\<rparr>)"
  using assms
  by (simp add: KMeans_get_scores_def py_defs model_getattr_def frame_obj_def
      KMeans_scores_events_def)

lemma KMeans_plot_silhouette_diagram_ok:
  assumes "call env (heap s) ''plot_silhouette_diagram'' [d, l, c, n, str_obj nm] = Inr v3"
    "call env (heap s) ''save_fig''
       [Value (PyStr (''Silhouette Diagram - '' @ fstr nm)), Value (PyStr path)] = Inr v4"
  shows "KMeans_plot_silhouette_diagram env d l c n nm path s = (Inr (), s\<lparr>trace := trace s @
     [Print [Value (PyStr ''-----* Silhouette Diagram *-----'')],
      Call ''plot_silhouette_diagram'' [d, l, c, n, str_obj nm],
      Call ''save_fig'' [Value (PyStr (''Silhouette Diagram - '' @ fstr nm)), Value (PyStr path)]]\<rparr>)"
  using assms by (simp add: KMeans_plot_silhouette_diagram_def py_defs)

lemma KMeans_scatter2d_eq:
  "KMeans_scatter2d env d l nm path s =
     (case call env (heap s) ''scatter2d'' [d, l, str_obj nm] of
        Inl err \<Rightarrow>
          (Inl err, s\<lparr>trace := trace s @
             [Print [Value (PyStr ''-----* Bi-plot *-----'')],
              Call ''scatter2d'' [d, l, str_obj nm]]\<rparr>)
      | Inr v \<Rightarrow>
          (case call env (heap s) ''save_fig''
                  [Value (PyStr (''Bi-plot - '' @ fstr nm)), Value (PyStr path)] of
             Inl err \<Rightarrow> Inl err
           | Inr v' \<Rightarrow> Inr (),
           s\<lparr>trace := trace s @
             [Print [Value (PyStr ''-----* Bi-plot *-----'')],
              Call ''scatter2d'' [d, l, str_obj nm],
              Call ''save_fig'' [Value (PyStr (''Bi-plot - '' @ fstr nm)), Value (PyStr path)]]\<rparr>))"
  by (simp add: KMeans_scatter2d_def py_defs split: sum.split)

lemma KMeans_scatter3d_eq:
  "KMeans_scatter3d env s =
     (case call env (heap s) ''scatter3d'' [] of Inl err \<Rightarrow> Inl err | Inr v \<Rightarrow> Inr (),
      s\<lparr>trace := trace s @
        [Print [Value (PyStr ''-----* Tri-plot *-----'')], Call ''scatter3d'' []]\<rparr>)"
  by (simp add: KMeans_scatter3d_def py_defs split: sum.split)

text \<open>\<^verbatim>\<open>special_components\<close> of KMeans up to the branch, when the four calls made before it
  return: the state the branch runs in, and the branch.\<close>

lemma KMeans_special_components_eq:
  assumes m: "model (self s) = Holds e" and i: "est_getattr e ''inertia_'' = Some i"
    and l: "est_getattr e ''labels_'' = Some l" and x: "X (self s) = Holds r"
    and col: "map_of (columns (heap s r)) ''clustering result'' = Some col"
    and n: "map_of (hyper (self s)) ''n_clusters'' = Some n"
    and nm: "naming (self s) = Holds nm"
    and c1: "call env (heap s) ''metrics.calinski_harabasz_score'' [Frame r, Value l] = Inr ch"
    and c2: "call env (heap s) ''metrics.silhouette_score'' [Frame r, Value l] = Inr sil"
    and c3: "call env (heap s) ''plot_silhouette_diagram''
        [Frame r, Value (PyList col),
         Value (model_getattr_default (Some e) ''cluster_centers_'' no_cluster_centers),
         Value n, Value (PyStr nm)] = Inr v3"
    and c4: "call env (heap s) ''save_fig''
        [Value (PyStr (''Silhouette Diagram - '' @ nm)),
         Value (PyStr (MODEL_OUTPUT_IMAGE_PATH env))] = Inr v4"
  shows "KMeans_special_components env kw s =
     (case map_of kw ''components_num'' of
        None \<Rightarrow> (Inl KeyError, KMeans_before_branch env s r e i l ch sil col n nm)
      | Some v \<Rightarrow>
          (case py_gt env v 3 of
             Inl err \<Rightarrow> (Inl err, KMeans_before_branch env s r e i l ch sil col n nm)
           | Inr gt3 \<Rightarrow>
               if gt3
               then KMeans_scatter3d env (KMeans_before_branch env s r e i l ch sil col n nm)
               else
                 (case py_eq env v 3 of
                    Inl err \<Rightarrow> (Inl err, KMeans_before_branch env s r e i l ch sil col n nm)
                  | Inr eq3 \<Rightarrow>
                      if eq3
                      then KMeans_scatter3d env
                             (KMeans_before_branch env s r e i l ch sil col n nm)
                      else
                        (case py_eq env v 2 of
                           Inl err \<Rightarrow>
                             (Inl err, KMeans_before_branch env s r e i l ch sil col n nm)
                         | Inr eq2 \<Rightarrow>
                             if eq2
                             then KMeans_scatter2d env (Frame r) (Value (PyList col)) (Some nm)
                                    (MODEL_OUTPUT_IMAGE_PATH env)
                                    (KMeans_before_branch env s r e i l ch sil col n nm)
                             else (Inr (),
                                   KMeans_before_branch env s r e i l ch sil col n nm)))))"
proof -
  let ?s1 = "s\<lparr>trace := trace s @ KMeans_scores_events r i l ch sil\<rparr>"
  have s1: "KMeans_get_scores env s = (Inr (), ?s1)"
    by (rule KMeans_get_scores_ok [OF m i l x c1 c2])
  let ?cc = "model_getattr_default (Some e) ''cluster_centers_'' no_cluster_centers"
  let ?s2 = "s\<lparr>trace := trace s @ KMeans_scores_events r i l ch sil @
      [Print [Value (PyStr ''-----* Clustering Centers *-----'')], Print [Value ?cc]]\<rparr>"
  have s2: "get_cluster_centers ?s1 = (Inr ?cc, ?s2)"
    using m by (simp add: get_cluster_centers_eq model_getattr_default_def)
  have c3': "call env (heap ?s2) ''plot_silhouette_diagram''
      [Frame r, Value (PyList col), Value ?cc, Value n, str_obj (Some nm)] = Inr v3"
    using c3 by (simp add: str_obj_def)
  have c4': "call env (heap ?s2) ''save_fig''
      [Value (PyStr (''Silhouette Diagram - '' @ fstr (Some nm))),
       Value (PyStr (MODEL_OUTPUT_IMAGE_PATH env))] = Inr v4"
    using c4 by (simp add: fstr_def)
  have "KMeans_plot_silhouette_diagram env (Frame r) (Value (PyList col)) (Value ?cc)
      (Value n) (Some nm) (MODEL_OUTPUT_IMAGE_PATH env) ?s2 =
      (Inr (), ?s2\<lparr>trace := trace ?s2 @
        [Print [Value (PyStr ''-----* Silhouette Diagram *-----'')],
         Call ''plot_silhouette_diagram''
           [Frame r, Value (PyList col), Value ?cc, Value n, str_obj (Some nm)],
         Call ''save_fig'' [Value (PyStr (''Silhouette Diagram - '' @ fstr (Some nm))),
                            Value (PyStr (MODEL_OUTPUT_IMAGE_PATH env))]]\<rparr>)"
    by (rule KMeans_plot_silhouette_diagram_ok [OF c3' c4'])
  also have "\<dots> = (Inr (), KMeans_before_branch env s r e i l ch sil col n nm)"
    by (simp add: KMeans_before_branch_def KMeans_silhouette_events_def str_obj_def fstr_def)
  finally have s3: "KMeans_plot_silhouette_diagram env (Frame r) (Value (PyList col))
      (Value ?cc) (Value n) (Some nm) (MODEL_OUTPUT_IMAGE_PATH env) ?s2 =
      (Inr (), KMeans_before_branch env s r e i l ch sil col n nm)" .
  have sb: "self (KMeans_before_branch env s r e i l ch sil col n nm) = self s"
    and hb: "heap (KMeans_before_branch env s r e i l ch sil col n nm) = heap s"
    by (simp_all add: KMeans_before_branch_def)
  show ?thesis
    using x col n nm
    by (simp add: KMeans_special_components_def py_bind_def s1 s2 s3 sb hb self_attr_def
        X_getitem_def self_hyper_def py_lift_def kwarg_def py_return_def frame_obj_def
        split: option.split sum.split)
qed

lemma KMeans_before_branch_simps:
  "self (KMeans_before_branch env s r e i l ch sil col n nm) = self s"
  "heap (KMeans_before_branch env s r e i l ch sil col n nm) = heap s"
  "scatter_calls (trace (KMeans_before_branch env s r e i l ch sil col n nm)) =
     scatter_calls (trace s)"
  by (simp_all add: KMeans_before_branch_def KMeans_scores_events_def
      KMeans_silhouette_events_def scatter_calls_def)

lemma number_value_gt:
  "number_value v = Some x \<Longrightarrow> py_gt env v k = Inr (x > of_int k)"
  by (cases v) auto

lemma number_value_eq:
  "number_value v = Some x \<Longrightarrow> py_eq env v k = Inr (x = of_int k)"
  by (cases v) auto

lemma KMeans_special_components_no_column:
  assumes m: "model (self s) = Holds e" and i: "est_getattr e ''inertia_'' = Some i"
    and l: "est_getattr e ''labels_'' = Some l" and x: "X (self s) = Holds r"
    and c1: "call env (heap s) ''metrics.calinski_harabasz_score'' [Frame r, Value l] = Inr ch"
    and c2: "call env (heap s) ''metrics.silhouette_score'' [Frame r, Value l] = Inr sil"
    and col: "map_of (columns (heap s r)) ''clustering result'' = None"
  shows "KMeans_special_components env kw s =
     (Inl KeyError, s\<lparr>trace := trace s @ KMeans_scores_events r i l ch sil\<rparr>)"
  using x col
  by (simp add: KMeans_special_components_def py_bind_def
      KMeans_get_scores_ok [OF m i l x c1 c2] self_attr_def X_getitem_def)

lemma DBSCAN_special_components_eq:
  assumes "X (self s) = Holds r" "model (self s) = Holds e" "naming (self s) = Holds nm"
  shows "DBSCAN_special_components env kw s =
     (case call env (heap s) ''dbscan_result_plot''
             [Frame r, Estimator e, Value (PyStr nm)] of
        Inl err \<Rightarrow>
          (Inl err, s\<lparr>trace := trace s @
             [Print [Value (PyStr ''-------** dbscan_clustering_result_2d_plot **----------'')],
              Call ''dbscan_result_plot'' [Frame r, Estimator e, Value (PyStr nm)]]\<rparr>)
      | Inr v \<Rightarrow>
          (case call env (heap s) ''save_fig''
                  [Value (PyStr (''Plot - '' @ nm @ '' - 2D'')),
                   Value (PyStr (MODEL_OUTPUT_IMAGE_PATH env))] of
             Inl err \<Rightarrow> Inl err
           | Inr v' \<Rightarrow> Inr (),
           s\<lparr>trace := trace s @
             [Print [Value (PyStr ''-------** dbscan_clustering_result_2d_plot **----------'')],
              Call ''dbscan_result_plot'' [Frame r, Estimator e, Value (PyStr nm)],
              Call ''save_fig'' [Value (PyStr (''Plot - '' @ nm @ '' - 2D'')),
                                 Value (PyStr (MODEL_OUTPUT_IMAGE_PATH env))]]\<rparr>))"
  using assms
  by (simp add: DBSCAN_special_components_def DBSCAN_clustering_result_plot_def py_defs
      frame_obj_def est_obj_def str_obj_def fstr_def split: sum.split)

lemma df_setitem_new:
  assumes "length ls = nrows df" "map_of (columns df) k = None"
  shows "df_setitem df k (PyList ls) = Inr (df\<lparr>columns := columns df @ [(k, ls)]\<rparr>)"
proof (cases "ls = []")
  case True
  then show ?thesis using assms by (simp add: df_setitem_def update_absent)
next
  case False
  then have "0 < length ls" by simp
  then have "nrows df \<noteq> 0" unfolding assms(1) by simp
  then show ?thesis using assms by (simp add: df_setitem_def update_absent)
qed

lemma get_labels_new_column:
  assumes "model (self s) = Holds e" "est_getattr e ''labels_'' = Some (PyList ls)"
    and "length ls = nrows (heap s r)" "X (self s) = Holds r"
    and "map_of (columns (heap s r)) ''clustering result'' = None"
    and "naming (self s) = Holds nm"
  shows "get_labels env s =
    (case call env ((heap s)(r := (heap s r)\<lparr>columns := columns (heap s r) @ [(''clustering result'', ls)]\<rparr>))
            ''save_data'' [Frame r, Value (PyStr nm), Value (PyStr (DATASET_OUTPUT_PATH env))] of
       Inl err \<Rightarrow> Inl err | Inr v \<Rightarrow> Inr (),
     s\<lparr>heap := (heap s)(r := (heap s r)\<lparr>columns := columns (heap s r) @ [(''clustering result'', ls)]\<rparr>),
       trace := trace s @
         [Print [Value (PyStr ''-----* Clustering Labels *-----'')], Print [Frame r],
          Call ''save_data'' [Frame r, Value (PyStr nm), Value (PyStr (DATASET_OUTPUT_PATH env))]]\<rparr>)"
  using assms
  by (simp add: get_labels_def py_defs model_getattr_def X_setitem_def df_setitem_new
      frame_obj_def fstr_def split: sum.split)

lemma df_setitem_idem:
  assumes "df_setitem df k v = Inr df'"
  shows "df_setitem df' k v = Inr df'"
proof (cases v)
  case (PyList vs)
  show ?thesis
  proof (cases "nrows df = 0 \<and> vs \<noteq> []")
    case True
    then have "df' = \<lparr>nrows = length vs, columns = AList.update k vs
        (map (\<lambda>(c, old). (c, replicate (length vs) PyNaN)) (columns df))\<rparr>"
      using assms PyList by (simp add: df_setitem_def)
    then show ?thesis using True PyList by (simp add: df_setitem_def)
  next
    case False
    then have "length vs = nrows df \<and> df' = df\<lparr>columns := AList.update k vs (columns df)\<rparr>"
      using assms PyList by (auto simp add: df_setitem_def split: if_splits)
    then show ?thesis using False PyList by (auto simp add: df_setitem_def)
  qed
qed (use assms in \<open>auto simp add: df_setitem_def\<close>)

lemma get_labels_self: "self (snd (get_labels env s)) = self s"
  by (simp add: get_labels_def py_defs model_getattr_def X_setitem_def
      split: slot.split option.split sum.split)

lemma get_labels_heap:
  "heap (snd (get_labels env s)) =
     (case model (self s) of
        Holds e \<Rightarrow>
          (case est_getattr e ''labels_'' of
             Some v \<Rightarrow>
               (case X (self s) of
                  Holds r \<Rightarrow>
                    (case df_setitem (heap s r) ''clustering result'' v of
                       Inr df \<Rightarrow> (heap s)(r := df)
                     | Inl err \<Rightarrow> heap s)
                | _ \<Rightarrow> heap s)
           | None \<Rightarrow> heap s)
      | _ \<Rightarrow> heap s)"
  by (simp add: get_labels_def py_defs model_getattr_def X_setitem_def
      split: slot.split option.split sum.split)

lemma get_labels_heap_idem:
  "heap (snd (get_labels env (snd (get_labels env s)))) = heap (snd (get_labels env s))"
  by (auto simp add: get_labels_heap get_labels_self df_setitem_idem
      split: slot.split option.split sum.split)

lemma fit_eq:
  "fit env r s =
     (case model (self s) of
        Unbound \<Rightarrow> (Inl AttributeError, s\<lparr>self := (self s)\<lparr>X := Holds r\<rparr>\<rparr>)
      | IsNone \<Rightarrow> (Inl AttributeError, s\<lparr>self := (self s)\<lparr>X := Holds r\<rparr>\<rparr>)
      | Holds e \<Rightarrow>
          (case estimator_fit env (heap s) e r of
             Inl err \<Rightarrow> (Inl err, s\<lparr>self := (self s)\<lparr>X := Holds r\<rparr>,
                                    trace := trace s @ [Call ''fit'' [Estimator e, Frame r]]\<rparr>)
           | Inr d \<Rightarrow> (Inr (), s\<lparr>self := (self s)\<lparr>X := Holds r, model := Holds (e\<lparr>fitted := d\<rparr>)\<rparr>,
                                 trace := trace s @ [Call ''fit'' [Estimator e, Frame r]]\<rparr>)))"
  by (simp add: fit_def model_fit_def py_defs split: slot.split sum.split)

subsection \<open>What the constructors leave\<close>

lemma KMeansClustering_init_eq:
  "KMeansClustering_init env a s =
    (Inr (), s\<lparr>self := (WorkflowBase_init env)
      \<lparr>hyper :=
         AList.update ''algorithm'' (KMeans_params.algorithm a)
        (AList.update ''copy_x'' (copy_x a)
        (AList.update ''random_state'' (KMeans_params.random_state a)
        (AList.update ''verbose'' (KMeans_params.verbose a)
        (AList.update ''n_init'' (n_init a)
        (AList.update ''tol'' (tol a)
        (AList.update ''max_iter'' (KMeans_params.max_iter a)
        (AList.update ''init'' (init a)
        (AList.update ''n_clusters'' (n_clusters a) (hyper (WorkflowBase_init env)))))))))),
       model := Holds
         \<lparr>est_class = ''KMeans'',
          kwargs = [(''n_clusters'', n_clusters a), (''init'', init a), (''n_init'', n_init a),
                    (''max_iter'', KMeans_params.max_iter a), (''tol'', tol a),
                    (''verbose'', KMeans_params.verbose a),
                    (''random_state'', KMeans_params.random_state a), (''copy_x'', copy_x a),
                    (''algorithm'', KMeans_params.algorithm a)],
          fitted = []\<rparr>,
       naming := Holds ''KMeans''\<rparr>\<rparr>)"
  by (simp add: KMeansClustering_init_def ClusteringWorkflowBase_init_def py_defs map_of_update)

lemma DBSCANClustering_init_eq:
  "DBSCANClustering_init env b s =
    (Inr (), s\<lparr>self := (WorkflowBase_init env)
      \<lparr>hyper :=
         AList.update ''n_jobs'' (n_jobs b)
        (AList.update ''p'' (p b)
        (AList.update ''leaf_size'' (leaf_size b)
        (AList.update ''algorithm'' (DBSCAN_params.algorithm b)
        (AList.update ''metric_params'' (metric_params b)
        (AList.update ''metric'' (metric b)
        (AList.update ''min_samples'' (min_samples b)
        (AList.update ''eps'' (eps b) (hyper (WorkflowBase_init env))))))))),
       model := Holds
         \<lparr>est_class = ''DBSCAN'',
          kwargs = [(''eps'', eps b), (''min_samples'', min_samples b), (''metric'', metric b),
                    (''metric_params'', metric_params b),
                    (''algorithm'', DBSCAN_params.algorithm b), (''leaf_size'', leaf_size b),
                    (''p'', p b), (''n_jobs'', n_jobs b)],
          fitted = []\<rparr>,
       naming := Holds ''DBSCAN''\<rparr>\<rparr>)"
  by (simp add: DBSCANClustering_init_def ClusteringWorkflowBase_init_def py_defs map_of_update)

lemma AffinityPropagationClustering_init_eq:
  "AffinityPropagationClustering_init env a s =
    (Inr (), s\<lparr>self := (WorkflowBase_init env)
      \<lparr>hyper :=
         AList.update ''random_state'' (random_state a)
        (AList.update ''affinity'' (affinity a)
        (AList.update ''preference'' (preference a)
        (AList.update ''verbose'' (verbose a)
        (AList.update ''copy'' (copy a)
        (AList.update ''convergence_iter'' (convergence_iter a)
        (AList.update ''max_iter'' (max_iter a)
        (AList.update ''damping'' (damping a) (hyper (WorkflowBase_init env))))))))),
       model := Holds
         \<lparr>est_class = ''AffinityPropagation'',
          kwargs = [(''damping'', damping a), (''max_iter'', max_iter a),
                    (''convergence_iter'', convergence_iter a), (''copy'', copy a),
                    (''preference'', PyNone), (''affinity'', PyStr ''euclidean''),
                    (''verbose'', PyBool False), (''random_state'', PyNone)],
          fitted = []\<rparr>,
       naming := Holds ''AffinityPropagation''\<rparr>\<rparr>)"
  by (simp add: AffinityPropagationClustering_init_def ClusteringWorkflowBase_init_def py_defs
      map_of_update)

lemma df_setitem_list:
  assumes "length ls = nrows df"
  shows "df_setitem df k (PyList ls) = Inr (df\<lparr>columns := AList.update k ls (columns df)\<rparr>)"
proof (cases "ls = []")
  case True
  then show ?thesis using assms by (simp add: df_setitem_def)
next
  case False
  then have "0 < length ls" by simp
  then have "nrows df \<noteq> 0" unfolding assms by simp
  then show ?thesis using assms by (simp add: df_setitem_def)
qed

subsection \<open>The example states\<close>

lemma example_KMeans_fitted_eq:
  "example_KMeans_fitted =
     \<lparr>self =
        \<lparr>hyper = [(''n_clusters'', PyInt 2), (''init'', PyStr ''k-means++''),
                  (''max_iter'', PyInt 300), (''tol'', PyFloat (1 / 10000)),
                  (''n_init'', PyInt 10), (''verbose'', PyInt 0),
                  (''random_state'', PyNone), (''copy_x'', PyBool True),
                  (''algorithm'', PyStr ''auto'')],
         model = Holds example_KMeans_estimator,
         naming = Holds ''KMeans'', X = Holds 0\<rparr>,
      heap = (\<lambda>r. example_frame),
      trace = [Call ''fit'' [Estimator (example_KMeans_estimator\<lparr>fitted := []\<rparr>), Frame 0]]\<rparr>"
  by (simp add: example_KMeans_fitted_def py_bind_def KMeansClustering_init_eq fit_eq
      example_env_def example_start_def KMeansClustering_defaults_def
      example_KMeans_estimator_def)

lemma example_KMeans_labelled_eq:
  "example_KMeans_labelled =
     example_KMeans_fitted
       \<lparr>heap := (\<lambda>r. example_frame)
          (0 := \<lparr>nrows = 2, columns = [(''SiO2'', [PyFloat 1, PyFloat 2]),
                                        (''clustering result'', [PyInt 0, PyInt 1])]\<rparr>),
        trace := trace example_KMeans_fitted @
          [Print [Value (PyStr ''-----* Clustering Labels *-----'')], Print [Frame 0],
           Call ''save_data'' [Frame 0, Value (PyStr ''KMeans''), Value (PyStr ''dataset'')]]\<rparr>"
  by (simp add: example_KMeans_labelled_def example_KMeans_fitted_eq get_labels_def py_defs
      model_getattr_def est_getattr_def X_setitem_def df_setitem_def frame_obj_def fstr_def
      example_env_def example_frame_def example_KMeans_estimator_def)

lemma example_DBSCAN_fitted_eq:
  "example_DBSCAN_fitted =
     \<lparr>self =
        \<lparr>hyper = [(''eps'', PyFloat (1 / 2)), (''min_samples'', PyInt 5),
                  (''metric'', PyStr ''euclidean''), (''metric_params'', PyNone),
                  (''algorithm'', PyStr ''auto''), (''leaf_size'', PyInt 30),
                  (''p'', PyNone), (''n_jobs'', PyNone)],
         model = Holds example_DBSCAN_estimator,
         naming = Holds ''DBSCAN'', X = Holds 0\<rparr>,
      heap = (\<lambda>r. example_frame),
      trace = [Call ''fit'' [Estimator (example_DBSCAN_estimator\<lparr>fitted := []\<rparr>), Frame 0]]\<rparr>"
  by (simp add: example_DBSCAN_fitted_def py_bind_def DBSCANClustering_init_eq fit_eq
      example_env_def example_start_def DBSCANClustering_defaults_def
      example_DBSCAN_estimator_def)

section \<open>Properties\<close>

text \<open>
  C1. Whatever the caller passes to \<^verbatim>\<open>AffinityPropagationClustering\<close>, the estimator is
  built with \<^verbatim>\<open>preference=None\<close>, \<^verbatim>\<open>affinity="euclidean"\<close>, \<^verbatim>\<open>verbose=False\<close> and
  \<^verbatim>\<open>random_state=None\<close> (the defaults of the signature), while \<^verbatim>\<open>damping\<close>,
  \<^verbatim>\<open>max_iter\<close>, \<^verbatim>\<open>convergence_iter\<close> and \<^verbatim>\<open>copy\<close> are the caller's; the caller's values
  of the four hardcoded parameters are stored on \<^verbatim>\<open>self\<close> all the same.
\<close>

theorem AffinityPropagation_hardcodes_four_parameters:
  "\<exists>w. AffinityPropagationClustering_init env a s = (Inr (), s\<lparr>self := w\<rparr>) \<and>
       model w = Holds
         \<lparr>est_class = ''AffinityPropagation'',
          kwargs = [(''damping'', damping a), (''max_iter'', max_iter a),
                    (''convergence_iter'', convergence_iter a), (''copy'', copy a),
                    (''preference'', PyNone), (''affinity'', PyStr ''euclidean''),
                    (''verbose'', PyBool False), (''random_state'', PyNone)],
          fitted = []\<rparr> \<and>
       preference AffinityPropagationClustering_defaults = PyNone \<and>
       affinity AffinityPropagationClustering_defaults = PyStr ''euclidean'' \<and>
       verbose AffinityPropagationClustering_defaults = PyBool False \<and>
       random_state AffinityPropagationClustering_defaults = PyNone \<and>
       map_of (hyper w) ''preference'' = Some (preference a) \<and>
       map_of (hyper w) ''affinity'' = Some (affinity a) \<and>
       map_of (hyper w) ''verbose'' = Some (verbose a) \<and>
       map_of (hyper w) ''random_state'' = Some (random_state a)"
  by (rule exI [of _ "self (snd (AffinityPropagationClustering_init env a s))"])
    (simp add: AffinityPropagationClustering_init_eq AffinityPropagationClustering_defaults_def
      map_of_update)

theorem AffinityPropagation_hardcodes_four_parameters_witness:
  "\<exists>w e. AffinityPropagationClustering_init example_env
            (AffinityPropagationClustering_defaults
               \<lparr>preference := PyInt (- 50), random_state := PyInt 0\<rparr>) example_start =
            (Inr (), example_start\<lparr>self := w\<rparr>) \<and>
          model w = Holds e \<and>
          map_of (kwargs e) ''preference'' = Some PyNone \<and>
          map_of (kwargs e) ''random_state'' = Some PyNone \<and>
          map_of (hyper w) ''preference'' = Some (PyInt (- 50)) \<and>
          map_of (hyper w) ''random_state'' = Some (PyInt 0)"
proof -
  obtain w where
    "AffinityPropagationClustering_init example_env
       (AffinityPropagationClustering_defaults
          \<lparr>preference := PyInt (- 50), random_state := PyInt 0\<rparr>) example_start =
     (Inr (), example_start\<lparr>self := w\<rparr>)"
    and "\<exists>e. model w = Holds e \<and> map_of (kwargs e) ''preference'' = Some PyNone \<and>
             map_of (kwargs e) ''random_state'' = Some PyNone"
    and "map_of (hyper w) ''preference'' = Some (PyInt (- 50))"
    and "map_of (hyper w) ''random_state'' = Some (PyInt 0)"
    using AffinityPropagation_hardcodes_four_parameters
      [of example_env "AffinityPropagationClustering_defaults
          \<lparr>preference := PyInt (- 50), random_state := PyInt 0\<rparr>" example_start]
    by auto
  then show ?thesis by blast
qed

text \<open>
  C2. On a fitted and labelled KMeans workflow, when the four calls made before the branch
  return (the two metrics, the silhouette diagram and its \<^verbatim>\<open>save_fig\<close>), the scatter plot
  calls that \<^verbatim>\<open>special_components(components_num=v)\<close> makes are: the one call of
  \<^verbatim>\<open>scatter2d\<close> when \<open>v\<close> is a number equal to 2; the one call of \<^verbatim>\<open>scatter3d\<close> when \<open>v\<close> is
  a number that is 3 or more; none for any other number, for \<^verbatim>\<open>nan\<close>, \<^verbatim>\<open>None\<close> and a
  string. For a list or an array the branch is the one its comparisons with 3 and 2 select.
  For a number the method returns unless the scatter call, or the \<^verbatim>\<open>save_fig\<close> after
  \<^verbatim>\<open>scatter2d\<close>, raises; and for any two numbers that are 3 or more the whole method does
  the same.
\<close>

theorem KMeans_special_components_scatter_calls:
  assumes "model (self s) = Holds e"
    and "est_getattr e ''inertia_'' = Some i"
    and "est_getattr e ''labels_'' = Some l"
    and "X (self s) = Holds r"
    and "map_of (columns (heap s r)) ''clustering result'' = Some col"
    and "map_of (hyper (self s)) ''n_clusters'' = Some n"
    and "naming (self s) = Holds nm"
    and "call env (heap s) ''metrics.calinski_harabasz_score'' [Frame r, Value l] = Inr ch"
    and "call env (heap s) ''metrics.silhouette_score'' [Frame r, Value l] = Inr sil"
    and "call env (heap s) ''plot_silhouette_diagram''
        [Frame r, Value (PyList col),
         Value (model_getattr_default (Some e) ''cluster_centers_'' no_cluster_centers),
         Value n, Value (PyStr nm)] = Inr v3"
    and "call env (heap s) ''save_fig''
        [Value (PyStr (''Silhouette Diagram - '' @ nm)),
         Value (PyStr (MODEL_OUTPUT_IMAGE_PATH env))] = Inr v4"
    and "map_of kw ''components_num'' = Some v"
  shows "((\<forall>vs. v \<noteq> PyList vs) \<longrightarrow>
        scatter_calls (trace (snd (KMeans_special_components env kw s))) =
          scatter_calls (trace s) @
          (case number_value v of
             Some x \<Rightarrow>
               if x = 2
               then [Call ''scatter2d'' [Frame r, Value (PyList col), Value (PyStr nm)]]
               else if 3 \<le> x then [Call ''scatter3d'' []]
               else []
           | None \<Rightarrow> [])) \<and>
     (\<forall>vs. v = PyList vs \<longrightarrow>
        scatter_calls (trace (snd (KMeans_special_components env kw s))) =
          scatter_calls (trace s) @
          (case sequence_gt env vs 3 of
             Inl err \<Rightarrow> []
           | Inr gt3 \<Rightarrow>
               if gt3 then [Call ''scatter3d'' []]
               else
                 (case sequence_eq env vs 3 of
                    Inl err \<Rightarrow> []
                  | Inr eq3 \<Rightarrow>
                      if eq3 then [Call ''scatter3d'' []]
                      else
                        (case sequence_eq env vs 2 of
                           Inl err \<Rightarrow> []
                         | Inr eq2 \<Rightarrow>
                             if eq2
                             then [Call ''scatter2d''
                                     [Frame r, Value (PyList col), Value (PyStr nm)]]
                             else [])))) \<and>
     (\<forall>x. number_value v = Some x \<longrightarrow>
        fst (KMeans_special_components env kw s) =
          (if x = 2
           then (case call env (heap s) ''scatter2d''
                        [Frame r, Value (PyList col), Value (PyStr nm)] of
                   Inl err \<Rightarrow> Inl err
                 | Inr w \<Rightarrow>
                     (case call env (heap s) ''save_fig''
                             [Value (PyStr (''Bi-plot - '' @ nm)),
                              Value (PyStr (MODEL_OUTPUT_IMAGE_PATH env))] of
                        Inl err \<Rightarrow> Inl err
                      | Inr w' \<Rightarrow> Inr ()))
           else if 3 \<le> x
           then (case call env (heap s) ''scatter3d'' [] of
                   Inl err \<Rightarrow> Inl err
                 | Inr w \<Rightarrow> Inr ())
           else Inr ())) \<and>
     (\<forall>kw' v' x x'. map_of kw' ''components_num'' = Some v' \<and>
          number_value v = Some x \<and> 3 \<le> x \<and> number_value v' = Some x' \<and> 3 \<le> x' \<longrightarrow>
        KMeans_special_components env kw' s = KMeans_special_components env kw s)"
proof -
  note eq = KMeans_special_components_eq [OF assms(1-11)]
  note kw = assms(12)
  note bb = KMeans_before_branch_simps [of env s r e i l ch sil col n nm]
  have three: "KMeans_special_components env k s =
      KMeans_scatter3d env (KMeans_before_branch env s r e i l ch sil col n nm)"
    if "map_of k ''components_num'' = Some u" "number_value u = Some y" "3 \<le> y" for k u y
    using that
    by (auto simp add: eq number_value_gt [of u y] number_value_eq [of u y])
  have nolist: "scatter_calls (trace (snd (KMeans_special_components env kw s))) =
      scatter_calls (trace s) @
      (case number_value v of
         Some x \<Rightarrow>
           if x = 2
           then [Call ''scatter2d'' [Frame r, Value (PyList col), Value (PyStr nm)]]
           else if 3 \<le> x then [Call ''scatter3d'' []]
           else []
       | None \<Rightarrow> [])"
    if "\<forall>vs. v \<noteq> PyList vs"
    using that
    by (cases v)
      (auto simp add: eq kw bb KMeans_scatter2d_eq KMeans_scatter3d_eq scatter_calls_append
        scatter_calls_Print scatter_calls_Call scatter_calls_Nil str_obj_def
        split: sum.split)
  have list: "scatter_calls (trace (snd (KMeans_special_components env kw s))) =
      scatter_calls (trace s) @
      (case sequence_gt env vs 3 of
         Inl err \<Rightarrow> []
       | Inr gt3 \<Rightarrow>
           if gt3 then [Call ''scatter3d'' []]
           else
             (case sequence_eq env vs 3 of
                Inl err \<Rightarrow> []
              | Inr eq3 \<Rightarrow>
                  if eq3 then [Call ''scatter3d'' []]
                  else
                    (case sequence_eq env vs 2 of
                       Inl err \<Rightarrow> []
                     | Inr eq2 \<Rightarrow>
                         if eq2
                         then [Call ''scatter2d''
                                 [Frame r, Value (PyList col), Value (PyStr nm)]]
                         else [])))"
    if "v = PyList vs" for vs
    using that
    by (auto simp add: eq kw bb KMeans_scatter2d_eq KMeans_scatter3d_eq scatter_calls_append
        scatter_calls_Print scatter_calls_Call scatter_calls_Nil str_obj_def
        split: sum.split)
  have outcome: "fst (KMeans_special_components env kw s) =
      (if x = 2
       then (case call env (heap s) ''scatter2d''
                    [Frame r, Value (PyList col), Value (PyStr nm)] of
               Inl err \<Rightarrow> Inl err
             | Inr w \<Rightarrow>
                 (case call env (heap s) ''save_fig''
                         [Value (PyStr (''Bi-plot - '' @ nm)),
                          Value (PyStr (MODEL_OUTPUT_IMAGE_PATH env))] of
                    Inl err \<Rightarrow> Inl err
                  | Inr w' \<Rightarrow> Inr ()))
       else if 3 \<le> x
       then (case call env (heap s) ''scatter3d'' [] of
               Inl err \<Rightarrow> Inl err
             | Inr w \<Rightarrow> Inr ())
       else Inr ())"
    if "number_value v = Some x" for x
    using that
    by (auto simp add: eq kw bb number_value_gt [of v x] number_value_eq [of v x]
        KMeans_scatter2d_eq KMeans_scatter3d_eq str_obj_def fstr_def split: sum.split)
  have same: "KMeans_special_components env kw' s = KMeans_special_components env kw s"
    if "map_of kw' ''components_num'' = Some v'" "number_value v = Some x" "3 \<le> x"
      "number_value v' = Some x'" "3 \<le> x'" for kw' v' x x'
    using three [OF that(1) that(4) that(5)] three [OF kw that(2) that(3)] by simp
  show ?thesis
    using nolist list outcome same by blast
qed

theorem KMeans_special_components_scatter_calls_witness:
  "scatter_calls (trace (snd (KMeans_special_components example_env
       [(''components_num'', PyInt 2)] example_KMeans_labelled))) =
     [Call ''scatter2d'' [Frame 0, Value (PyList [PyInt 0, PyInt 1]), Value (PyStr ''KMeans'')]] \<and>
   scatter_calls (trace (snd (KMeans_special_components example_env
       [(''components_num'', PyInt 3)] example_KMeans_labelled))) = [Call ''scatter3d'' []] \<and>
   scatter_calls (trace (snd (KMeans_special_components example_env
       [(''components_num'', PyInt 7)] example_KMeans_labelled))) = [Call ''scatter3d'' []] \<and>
   scatter_calls (trace (snd (KMeans_special_components example_env
       [(''components_num'', PyInt 1)] example_KMeans_labelled))) = [] \<and>
   scatter_calls (trace (snd (KMeans_special_components example_env
       [(''components_num'', PyNone)] example_KMeans_labelled))) = []"
proof -
  have m: "model (self example_KMeans_labelled) = Holds example_KMeans_estimator"
    and x: "X (self example_KMeans_labelled) = Holds 0"
    and nm: "naming (self example_KMeans_labelled) = Holds ''KMeans''"
    and n: "map_of (hyper (self example_KMeans_labelled)) ''n_clusters'' = Some (PyInt 2)"
    and col: "map_of (columns (heap example_KMeans_labelled 0)) ''clustering result'' =
        Some [PyInt 0, PyInt 1]"
    and t: "scatter_calls (trace example_KMeans_labelled) = []"
    by (simp_all add: example_KMeans_labelled_eq example_KMeans_fitted_eq scatter_calls_def)
  have i: "est_getattr example_KMeans_estimator ''inertia_'' = Some (PyFloat 0)"
    and l: "est_getattr example_KMeans_estimator ''labels_'' = Some (PyList [PyInt 0, PyInt 1])"
    by (simp_all add: est_getattr_def example_KMeans_estimator_def)
  have c: "\<And>h f args. call example_env h f args = Inr PyNone"
    by (simp add: example_env_def)
  have k: "\<And>u. map_of [(''components_num'', u)] ''components_num'' = Some u"
    by simp
  have th: "scatter_calls (trace (snd (KMeans_special_components example_env
       [(''components_num'', u)] example_KMeans_labelled))) =
      (case number_value u of
         Some y \<Rightarrow>
           if y = 2
           then [Call ''scatter2d''
                   [Frame 0, Value (PyList [PyInt 0, PyInt 1]), Value (PyStr ''KMeans'')]]
           else if 3 \<le> y then [Call ''scatter3d'' []]
           else []
       | None \<Rightarrow> [])"
    if "\<forall>vs. u \<noteq> PyList vs" for u
    using KMeans_special_components_scatter_calls [OF m i l x col n nm c c c c k [of u],
        THEN conjunct1] that
    by (simp add: t)
  have "scatter_calls (trace (snd (KMeans_special_components example_env
       [(''components_num'', PyInt 2)] example_KMeans_labelled))) =
     [Call ''scatter2d'' [Frame 0, Value (PyList [PyInt 0, PyInt 1]), Value (PyStr ''KMeans'')]]"
    using th [of "PyInt 2"] by simp
  moreover have "scatter_calls (trace (snd (KMeans_special_components example_env
       [(''components_num'', PyInt 3)] example_KMeans_labelled))) = [Call ''scatter3d'' []]"
    using th [of "PyInt 3"] by simp
  moreover have "scatter_calls (trace (snd (KMeans_special_components example_env
       [(''components_num'', PyInt 7)] example_KMeans_labelled))) = [Call ''scatter3d'' []]"
    using th [of "PyInt 7"] by simp
  moreover have "scatter_calls (trace (snd (KMeans_special_components example_env
       [(''components_num'', PyInt 1)] example_KMeans_labelled))) = []"
    using th [of "PyInt 1"] by simp
  moreover have "scatter_calls (trace (snd (KMeans_special_components example_env
       [(''components_num'', PyNone)] example_KMeans_labelled))) = []"
    using th [of PyNone] by simp
  ultimately show ?thesis by blast
qed

text \<open>
  C3. When \<^verbatim>\<open>self.model\<close> is an estimator, \<^verbatim>\<open>get_cluster_centers()\<close> returns its
  \<^verbatim>\<open>cluster_centers_\<close> attribute if it has one and the placeholder string otherwise; it
  returns the placeholder too when \<^verbatim>\<open>self.model\<close> is \<^verbatim>\<open>None\<close>; it does not raise. In
  particular, with a DBSCAN \<^verbatim>\<open>fit\<close> that sets no \<^verbatim>\<open>cluster_centers_\<close> (as
  scikit-learn's does), a constructed and fitted DBSCAN workflow returns the placeholder.
\<close>

theorem get_cluster_centers_returns_centers_or_placeholder:
  "(model (self s) = Holds e \<longrightarrow>
      fst (get_cluster_centers s) =
        Inr (case est_getattr e ''cluster_centers_'' of
               Some v \<Rightarrow> v | None \<Rightarrow> no_cluster_centers)) \<and>
   (model (self s) = IsNone \<longrightarrow> fst (get_cluster_centers s) = Inr no_cluster_centers) \<and>
   ((\<forall>h e' r' d. est_class e' = ''DBSCAN'' \<and> estimator_fit env h e' r' = Inr d \<longrightarrow>
        map_of d ''cluster_centers_'' = None) \<and>
    py_bind (DBSCANClustering_init env b) (\<lambda>_. fit env r) s0 = (Inr (), s1) \<longrightarrow>
      fst (get_cluster_centers s1) = Inr no_cluster_centers)"
proof (intro conjI impI)
  assume "model (self s) = Holds e"
  then show "fst (get_cluster_centers s) =
      Inr (case est_getattr e ''cluster_centers_'' of Some v \<Rightarrow> v | None \<Rightarrow> no_cluster_centers)"
    by (simp add: get_cluster_centers_eq split: option.split)
next
  assume "model (self s) = IsNone"
  then show "fst (get_cluster_centers s) = Inr no_cluster_centers"
    by (simp add: get_cluster_centers_eq)
next
  assume a: "(\<forall>h e' r' d. est_class e' = ''DBSCAN'' \<and> estimator_fit env h e' r' = Inr d \<longrightarrow>
        map_of d ''cluster_centers_'' = None) \<and>
    py_bind (DBSCANClustering_init env b) (\<lambda>_. fit env r) s0 = (Inr (), s1)"
  define e0 where "e0 =
     \<lparr>est_class = ''DBSCAN'',
      kwargs = [(''eps'', eps b), (''min_samples'', min_samples b), (''metric'', metric b),
                (''metric_params'', metric_params b),
                (''algorithm'', DBSCAN_params.algorithm b), (''leaf_size'', leaf_size b),
                (''p'', p b), (''n_jobs'', n_jobs b)],
      fitted = []\<rparr>"
  from a obtain d where d: "estimator_fit env (heap s0) e0 r = Inr d"
    and m1: "model (self s1) = Holds (e0\<lparr>fitted := d\<rparr>)"
    by (auto simp add: py_bind_def DBSCANClustering_init_eq fit_eq e0_def split: sum.splits)
  have "est_class e0 = ''DBSCAN''" by (simp add: e0_def)
  with a d have "map_of d ''cluster_centers_'' = None" by blast
  moreover have "map_of (kwargs e0) ''cluster_centers_'' = None" by (simp add: e0_def)
  ultimately have "est_getattr (e0\<lparr>fitted := d\<rparr>) ''cluster_centers_'' = None"
    by (simp add: est_getattr_def)
  with m1 show "fst (get_cluster_centers s1) = Inr no_cluster_centers"
    by (simp add: get_cluster_centers_eq)
qed

theorem get_cluster_centers_returns_centers_or_placeholder_witness:
  "fst (get_cluster_centers example_DBSCAN_fitted) =
     Inr (PyStr ''This class don not have cluster_centers_'') \<and>
   fst (get_cluster_centers example_KMeans_fitted) =
     Inr (PyList [PyList [PyFloat 1], PyList [PyFloat 2]])"
proof -
  have sk: "\<forall>h e' r' d. est_class e' = ''DBSCAN'' \<and> estimator_fit example_env h e' r' = Inr d \<longrightarrow>
      map_of d ''cluster_centers_'' = None"
    by (auto simp add: example_env_def)
  have run: "py_bind (DBSCANClustering_init example_env DBSCANClustering_defaults)
      (\<lambda>_. fit example_env 0) example_start = (Inr (), example_DBSCAN_fitted)"
    by (simp add: example_DBSCAN_fitted_def py_bind_def DBSCANClustering_init_eq fit_eq
        example_env_def)
  have mk: "model (self example_KMeans_fitted) = Holds example_KMeans_estimator"
    by (simp add: example_KMeans_fitted_eq)
  have ck: "est_getattr example_KMeans_estimator ''cluster_centers_'' =
      Some (PyList [PyList [PyFloat 1], PyList [PyFloat 2]])"
    by (simp add: est_getattr_def example_KMeans_estimator_def)
  show ?thesis
    using get_cluster_centers_returns_centers_or_placeholder
      [of example_KMeans_fitted example_KMeans_estimator example_env DBSCANClustering_defaults
        0 example_start example_DBSCAN_fitted] sk run mk ck
    by (simp add: no_cluster_centers_def)
qed

text \<open>
  C4. On a fitted workflow of class \<open>c\<close> (its estimator has one label per row of the table
  \<^verbatim>\<open>self.X\<close> refers to) whose table has no column \<^verbatim>\<open>clustering result\<close>,
  \<^verbatim>\<open>get_labels()\<close> leaves the number of rows, appends the one column
  \<^verbatim>\<open>clustering result\<close> holding the labels after the columns there were, and calls
  \<^verbatim>\<open>save_data\<close> on that table with the class's \<^verbatim>\<open>name\<close> and the dataset path; it
  returns if \<^verbatim>\<open>save_data\<close> does, and raises what \<^verbatim>\<open>save_data\<close> raises.
\<close>

theorem get_labels_appends_clustering_result:
  assumes "model (self s) = Holds e"
    and "est_getattr e ''labels_'' = Some (PyList ls)"
    and "length ls = nrows (heap s r)"
    and "X (self s) = Holds r"
    and "map_of (columns (heap s r)) ''clustering result'' = None"
    and "naming (self s) = Holds (name c)"
  shows "nrows (heap (snd (get_labels env s)) r) = nrows (heap s r) \<and>
     columns (heap (snd (get_labels env s)) r) =
       columns (heap s r) @ [(''clustering result'', ls)] \<and>
     trace (snd (get_labels env s)) = trace s @
       [Print [Value (PyStr ''-----* Clustering Labels *-----'')], Print [Frame r],
        Call ''save_data''
          [Frame r, Value (PyStr (name c)), Value (PyStr (DATASET_OUTPUT_PATH env))]] \<and>
     fst (get_labels env s) =
       (case call env (heap (snd (get_labels env s))) ''save_data''
               [Frame r, Value (PyStr (name c)), Value (PyStr (DATASET_OUTPUT_PATH env))] of
          Inl err \<Rightarrow> Inl err
        | Inr v \<Rightarrow> Inr ())"
  by (simp add: get_labels_new_column [OF assms])

theorem get_labels_appends_clustering_result_witness:
  "nrows (heap (snd (get_labels example_env example_KMeans_fitted)) 0) = 2 \<and>
   columns (heap (snd (get_labels example_env example_KMeans_fitted)) 0) =
     [(''SiO2'', [PyFloat 1, PyFloat 2]), (''clustering result'', [PyInt 0, PyInt 1])] \<and>
   trace (snd (get_labels example_env example_KMeans_fitted)) =
     trace example_KMeans_fitted @
       [Print [Value (PyStr ''-----* Clustering Labels *-----'')], Print [Frame 0],
        Call ''save_data'' [Frame 0, Value (PyStr ''KMeans''), Value (PyStr ''dataset'')]] \<and>
   fst (get_labels example_env example_KMeans_fitted) = Inr ()"
proof -
  have m: "model (self example_KMeans_fitted) = Holds example_KMeans_estimator"
    and x: "X (self example_KMeans_fitted) = Holds 0"
    and nm: "naming (self example_KMeans_fitted) = Holds (name KMeansClustering)"
    and len: "length [PyInt 0, PyInt 1] = nrows (heap example_KMeans_fitted 0)"
    and col: "map_of (columns (heap example_KMeans_fitted 0)) ''clustering result'' = None"
    by (simp_all add: example_KMeans_fitted_eq example_frame_def)
  have l: "est_getattr example_KMeans_estimator ''labels_'' = Some (PyList [PyInt 0, PyInt 1])"
    by (simp add: est_getattr_def example_KMeans_estimator_def)
  show ?thesis
    using get_labels_appends_clustering_result [OF m l len x col nm, of example_env]
    by (simp add: example_KMeans_fitted_eq example_frame_def example_env_def)
qed

text \<open>
  C5. For each of the eight placeholder classes, when \<^verbatim>\<open>WorkflowBase.__init__\<close> assigns
  no estimator to \<^verbatim>\<open>self.model\<close> (it leaves it unbound or \<^verbatim>\<open>None\<close>), constructing an
  instance and calling \<^verbatim>\<open>fit\<close> raises \<^verbatim>\<open>AttributeError\<close>, and no estimator's
  \<^verbatim>\<open>fit\<close> has been called.
\<close>

theorem placeholder_fit_raises_AttributeError:
  assumes "c \<in> set placeholders"
    and "\<And>e. model (WorkflowBase_init env) \<noteq> Holds e"
  shows "fst (py_bind (placeholder_init env c) (\<lambda>_. fit env r) s) = Inl AttributeError \<and>
     trace (snd (py_bind (placeholder_init env c) (\<lambda>_. fit env r) s)) = trace s"
proof (cases "model (WorkflowBase_init env)")
  case (Holds e)
  with assms(2) [of e] show ?thesis by simp
qed (simp_all add: py_bind_def placeholder_init_def ClusteringWorkflowBase_init_def fit_eq)

theorem placeholder_fit_raises_AttributeError_witness:
  "list_all (\<lambda>c. fst (py_bind (placeholder_init example_env c) (\<lambda>_. fit example_env 0)
       example_start) = Inl AttributeError) placeholders \<and> length placeholders = 8"
proof -
  have u: "\<And>e. model (WorkflowBase_init example_env) \<noteq> Holds e"
    by (simp add: example_env_def)
  have "\<And>c. c \<in> set placeholders \<Longrightarrow>
      fst (py_bind (placeholder_init example_env c) (\<lambda>_. fit example_env 0) example_start) =
        Inl AttributeError"
    using placeholder_fit_raises_AttributeError [OF _ u] by blast
  then show ?thesis by (simp add: placeholders_def)
qed

text \<open>
  C6. \<^verbatim>\<open>KMeansClustering.__init__\<close> and \<^verbatim>\<open>DBSCANClustering.__init__\<close> always return, and
  the estimator each builds receives every hyperparameter of the signature (nine for KMeans,
  eight for DBSCAN) with the value the constructor was given, under the parameter's own
  name.
\<close>

theorem KMeans_and_DBSCAN_forward_hyperparameters:
  "(\<exists>w. KMeansClustering_init env a s = (Inr (), s\<lparr>self := w\<rparr>) \<and>
        model w = Holds
          \<lparr>est_class = ''KMeans'',
           kwargs = [(''n_clusters'', n_clusters a), (''init'', init a), (''n_init'', n_init a),
                     (''max_iter'', KMeans_params.max_iter a), (''tol'', tol a),
                     (''verbose'', KMeans_params.verbose a),
                     (''random_state'', KMeans_params.random_state a), (''copy_x'', copy_x a),
                     (''algorithm'', KMeans_params.algorithm a)],
           fitted = []\<rparr>) \<and>
   (\<exists>w. DBSCANClustering_init env b s = (Inr (), s\<lparr>self := w\<rparr>) \<and>
        model w = Holds
          \<lparr>est_class = ''DBSCAN'',
           kwargs = [(''eps'', eps b), (''min_samples'', min_samples b), (''metric'', metric b),
                     (''metric_params'', metric_params b),
                     (''algorithm'', DBSCAN_params.algorithm b), (''leaf_size'', leaf_size b),
                     (''p'', p b), (''n_jobs'', n_jobs b)],
           fitted = []\<rparr>)"
proof (rule conjI)
  show "\<exists>w. KMeansClustering_init env a s = (Inr (), s\<lparr>self := w\<rparr>) \<and>
        model w = Holds
          \<lparr>est_class = ''KMeans'',
           kwargs = [(''n_clusters'', n_clusters a), (''init'', init a), (''n_init'', n_init a),
                     (''max_iter'', KMeans_params.max_iter a), (''tol'', tol a),
                     (''verbose'', KMeans_params.verbose a),
                     (''random_state'', KMeans_params.random_state a), (''copy_x'', copy_x a),
                     (''algorithm'', KMeans_params.algorithm a)],
           fitted = []\<rparr>"
    by (rule exI [of _ "self (snd (KMeansClustering_init env a s))"])
      (simp add: KMeansClustering_init_eq)
next
  show "\<exists>w. DBSCANClustering_init env b s = (Inr (), s\<lparr>self := w\<rparr>) \<and>
        model w = Holds
          \<lparr>est_class = ''DBSCAN'',
           kwargs = [(''eps'', eps b), (''min_samples'', min_samples b), (''metric'', metric b),
                     (''metric_params'', metric_params b),
                     (''algorithm'', DBSCAN_params.algorithm b), (''leaf_size'', leaf_size b),
                     (''p'', p b), (''n_jobs'', n_jobs b)],
           fitted = []\<rparr>"
    by (rule exI [of _ "self (snd (DBSCANClustering_init env b s))"])
      (simp add: DBSCANClustering_init_eq)
qed

theorem KMeans_and_DBSCAN_forward_hyperparameters_witness:
  "(\<exists>w e. KMeansClustering_init example_env
             (KMeansClustering_defaults\<lparr>n_clusters := PyInt 3, tol := PyFloat (1 / 100)\<rparr>)
             example_start = (Inr (), example_start\<lparr>self := w\<rparr>) \<and>
           model w = Holds e \<and>
           map_of (kwargs e) ''n_clusters'' = Some (PyInt 3) \<and>
           map_of (kwargs e) ''tol'' = Some (PyFloat (1 / 100)) \<and>
           map_of (kwargs e) ''n_init'' = Some (PyInt 10)) \<and>
   (\<exists>w e. DBSCANClustering_init example_env
             (DBSCANClustering_defaults\<lparr>eps := PyFloat (3 / 10), p := PyInt 1\<rparr>)
             example_start = (Inr (), example_start\<lparr>self := w\<rparr>) \<and>
           model w = Holds e \<and>
           map_of (kwargs e) ''eps'' = Some (PyFloat (3 / 10)) \<and>
           map_of (kwargs e) ''p'' = Some (PyInt 1) \<and>
           map_of (kwargs e) ''min_samples'' = Some (PyInt 5))"
proof -
  obtain w where
    "KMeansClustering_init example_env
       (KMeansClustering_defaults\<lparr>n_clusters := PyInt 3, tol := PyFloat (1 / 100)\<rparr>)
       example_start = (Inr (), example_start\<lparr>self := w\<rparr>)"
    and "\<exists>e. model w = Holds e \<and>
           map_of (kwargs e) ''n_clusters'' = Some (PyInt 3) \<and>
           map_of (kwargs e) ''tol'' = Some (PyFloat (1 / 100)) \<and>
           map_of (kwargs e) ''n_init'' = Some (PyInt 10)"
    using KMeans_and_DBSCAN_forward_hyperparameters
      [of example_env "KMeansClustering_defaults\<lparr>n_clusters := PyInt 3, tol := PyFloat (1 / 100)\<rparr>"
        example_start, THEN conjunct1]
    by (auto simp add: KMeansClustering_defaults_def)
  moreover obtain w' where
    "DBSCANClustering_init example_env
       (DBSCANClustering_defaults\<lparr>eps := PyFloat (3 / 10), p := PyInt 1\<rparr>)
       example_start = (Inr (), example_start\<lparr>self := w'\<rparr>)"
    and "\<exists>e. model w' = Holds e \<and>
           map_of (kwargs e) ''eps'' = Some (PyFloat (3 / 10)) \<and>
           map_of (kwargs e) ''p'' = Some (PyInt 1) \<and>
           map_of (kwargs e) ''min_samples'' = Some (PyInt 5)"
    using KMeans_and_DBSCAN_forward_hyperparameters
      [of example_env _ example_start
        "DBSCANClustering_defaults\<lparr>eps := PyFloat (3 / 10), p := PyInt 1\<rparr>", THEN conjunct2]
    by (auto simp add: DBSCANClustering_defaults_def)
  ultimately show ?thesis by blast
qed

text \<open>
  C7. On a fitted DBSCAN workflow \<^verbatim>\<open>special_components\<close> prints the banner and calls
  \<^verbatim>\<open>dbscan_result_plot\<close> once, on the table, the estimator and the name, whatever the
  collaborators do; if that call returns it calls \<^verbatim>\<open>save_fig\<close> once and returns, or
  raises what \<^verbatim>\<open>save_fig\<close> raises; if it raises, the error is the method's. Nothing else
  is printed or called: no score is computed. What the method does is the same for any
  keyword arguments, on every state.
\<close>

theorem DBSCAN_special_components_one_result_plot:
  assumes "X (self s) = Holds r"
    and "model (self s) = Holds e"
    and "naming (self s) = Holds nm"
  shows "DBSCAN_special_components env kw s =
     (case call env (heap s) ''dbscan_result_plot''
             [Frame r, Estimator e, Value (PyStr nm)] of
        Inl err \<Rightarrow>
          (Inl err, s\<lparr>trace := trace s @
             [Print [Value (PyStr ''-------** dbscan_clustering_result_2d_plot **----------'')],
              Call ''dbscan_result_plot'' [Frame r, Estimator e, Value (PyStr nm)]]\<rparr>)
      | Inr v \<Rightarrow>
          (case call env (heap s) ''save_fig''
                  [Value (PyStr (''Plot - '' @ nm @ '' - 2D'')),
                   Value (PyStr (MODEL_OUTPUT_IMAGE_PATH env))] of
             Inl err \<Rightarrow> Inl err
           | Inr v' \<Rightarrow> Inr (),
           s\<lparr>trace := trace s @
             [Print [Value (PyStr ''-------** dbscan_clustering_result_2d_plot **----------'')],
              Call ''dbscan_result_plot'' [Frame r, Estimator e, Value (PyStr nm)],
              Call ''save_fig'' [Value (PyStr (''Plot - '' @ nm @ '' - 2D'')),
                                 Value (PyStr (MODEL_OUTPUT_IMAGE_PATH env))]]\<rparr>)) \<and>
     (\<forall>kw' s'. DBSCAN_special_components env kw' s' = DBSCAN_special_components env kw s')"
proof (rule conjI)
  show "DBSCAN_special_components env kw s =
     (case call env (heap s) ''dbscan_result_plot''
             [Frame r, Estimator e, Value (PyStr nm)] of
        Inl err \<Rightarrow>
          (Inl err, s\<lparr>trace := trace s @
             [Print [Value (PyStr ''-------** dbscan_clustering_result_2d_plot **----------'')],
              Call ''dbscan_result_plot'' [Frame r, Estimator e, Value (PyStr nm)]]\<rparr>)
      | Inr v \<Rightarrow>
          (case call env (heap s) ''save_fig''
                  [Value (PyStr (''Plot - '' @ nm @ '' - 2D'')),
                   Value (PyStr (MODEL_OUTPUT_IMAGE_PATH env))] of
             Inl err \<Rightarrow> Inl err
           | Inr v' \<Rightarrow> Inr (),
           s\<lparr>trace := trace s @
             [Print [Value (PyStr ''-------** dbscan_clustering_result_2d_plot **----------'')],
              Call ''dbscan_result_plot'' [Frame r, Estimator e, Value (PyStr nm)],
              Call ''save_fig'' [Value (PyStr (''Plot - '' @ nm @ '' - 2D'')),
                                 Value (PyStr (MODEL_OUTPUT_IMAGE_PATH env))]]\<rparr>))"
    by (rule DBSCAN_special_components_eq [OF assms])
next
  show "\<forall>kw' s'. DBSCAN_special_components env kw' s' = DBSCAN_special_components env kw s'"
    by (simp add: DBSCAN_special_components_def)
qed

theorem DBSCAN_special_components_one_result_plot_witness:
  "DBSCAN_special_components example_env [(''components_num'', PyInt 3)] example_DBSCAN_fitted =
     (Inr (), example_DBSCAN_fitted\<lparr>trace := trace example_DBSCAN_fitted @
        [Print [Value (PyStr ''-------** dbscan_clustering_result_2d_plot **----------'')],
         Call ''dbscan_result_plot''
           [Frame 0, Estimator example_DBSCAN_estimator, Value (PyStr ''DBSCAN'')],
         Call ''save_fig'' [Value (PyStr ''Plot - DBSCAN - 2D''), Value (PyStr ''image'')]]\<rparr>) \<and>
   DBSCAN_special_components (example_env\<lparr>call := (\<lambda>h f args. Inl (LibraryError f))\<rparr>) []
       example_DBSCAN_fitted =
     (Inl (LibraryError ''dbscan_result_plot''),
      example_DBSCAN_fitted\<lparr>trace := trace example_DBSCAN_fitted @
        [Print [Value (PyStr ''-------** dbscan_clustering_result_2d_plot **----------'')],
         Call ''dbscan_result_plot''
           [Frame 0, Estimator example_DBSCAN_estimator, Value (PyStr ''DBSCAN'')]]\<rparr>)"
proof -
  have x: "X (self example_DBSCAN_fitted) = Holds 0"
    and m: "model (self example_DBSCAN_fitted) = Holds example_DBSCAN_estimator"
    and nm: "naming (self example_DBSCAN_fitted) = Holds ''DBSCAN''"
    by (simp_all add: example_DBSCAN_fitted_eq)
  have c: "\<And>h f args. call example_env h f args = Inr PyNone"
    by (simp add: example_env_def)
  have pth: "MODEL_OUTPUT_IMAGE_PATH example_env = ''image''"
    by (simp add: example_env_def)
  have "DBSCAN_special_components example_env [(''components_num'', PyInt 3)]
      example_DBSCAN_fitted =
     (Inr (), example_DBSCAN_fitted\<lparr>trace := trace example_DBSCAN_fitted @
        [Print [Value (PyStr ''-------** dbscan_clustering_result_2d_plot **----------'')],
         Call ''dbscan_result_plot''
           [Frame 0, Estimator example_DBSCAN_estimator, Value (PyStr ''DBSCAN'')],
         Call ''save_fig'' [Value (PyStr ''Plot - DBSCAN - 2D''), Value (PyStr ''image'')]]\<rparr>)"
    using DBSCAN_special_components_one_result_plot
      [OF x m nm, of example_env "[(''components_num'', PyInt 3)]", THEN conjunct1]
    by (simp add: c pth)
  moreover have "DBSCAN_special_components
      (example_env\<lparr>call := (\<lambda>h f args. Inl (LibraryError f))\<rparr>) [] example_DBSCAN_fitted =
     (Inl (LibraryError ''dbscan_result_plot''),
      example_DBSCAN_fitted\<lparr>trace := trace example_DBSCAN_fitted @
        [Print [Value (PyStr ''-------** dbscan_clustering_result_2d_plot **----------'')],
         Call ''dbscan_result_plot''
           [Frame 0, Estimator example_DBSCAN_estimator, Value (PyStr ''DBSCAN'')]]\<rparr>)"
    using DBSCAN_special_components_one_result_plot
      [OF x m nm, of "example_env\<lparr>call := (\<lambda>h f args. Inl (LibraryError f))\<rparr>" "[]",
        THEN conjunct1]
    by simp
  ultimately show ?thesis by blast
qed

text \<open>
  C8. \<^verbatim>\<open>fit(X)\<close> stores the reference it is given and copies nothing: afterwards
  \<^verbatim>\<open>self.X\<close> is that reference and the heap is as before. So when \<^verbatim>\<open>fit\<close> succeeds
  with one label per row, after \<^verbatim>\<open>get_labels()\<close> the caller's own DataFrame (the object
  at the address passed to \<^verbatim>\<open>fit\<close>) has the column \<^verbatim>\<open>clustering result\<close> with the
  labels, and no other object has changed.
\<close>

theorem fit_stores_reference_to_callers_table:
  assumes "model (self s) = Holds e"
    and "estimator_fit env (heap s) e r = Inr d"
    and "map_of d ''labels_'' = Some (PyList ls)"
    and "length ls = nrows (heap s r)"
  shows "X (self (snd (fit env r s))) = Holds r \<and>
     heap (snd (fit env r s)) = heap s \<and>
     map_of (columns (heap (snd (py_bind (fit env r) (\<lambda>_. get_labels env) s)) r))
       ''clustering result'' = Some ls \<and>
     (\<forall>r'. r' \<noteq> r \<longrightarrow>
        heap (snd (py_bind (fit env r) (\<lambda>_. get_labels env) s)) r' = heap s r')"
proof -
  let ?s1 = "s\<lparr>self := (self s)\<lparr>X := Holds r, model := Holds (e\<lparr>fitted := d\<rparr>)\<rparr>,
               trace := trace s @ [Call ''fit'' [Estimator e, Frame r]]\<rparr>"
  have f: "fit env r s = (Inr (), ?s1)"
    using assms(1,2) by (simp add: fit_eq)
  have l: "est_getattr (e\<lparr>fitted := d\<rparr>) ''labels_'' = Some (PyList ls)"
    using assms(3) by (simp add: est_getattr_def)
  have h: "heap (snd (get_labels env ?s1)) =
      (heap s)(r := (heap s r)\<lparr>columns := AList.update ''clustering result'' ls
         (columns (heap s r))\<rparr>)"
    using l assms(4) by (simp add: get_labels_heap df_setitem_list)
  have b: "py_bind (fit env r) (\<lambda>_. get_labels env) s = get_labels env ?s1"
    using f by (simp add: py_bind_def)
  show ?thesis
    using f by (simp add: b h map_of_update)
qed

theorem fit_stores_reference_to_callers_table_witness:
  "X (self (snd (fit example_env 0 (snd (KMeansClustering_init example_env
       KMeansClustering_defaults example_start))))) = Holds 0 \<and>
   map_of (columns (heap (snd (py_bind (fit example_env 0) (\<lambda>_. get_labels example_env)
       (snd (KMeansClustering_init example_env KMeansClustering_defaults example_start)))) 0))
     ''clustering result'' = Some [PyInt 0, PyInt 1] \<and>
   heap (snd (py_bind (fit example_env 0) (\<lambda>_. get_labels example_env)
       (snd (KMeansClustering_init example_env KMeansClustering_defaults example_start)))) 1 =
     example_frame"
proof -
  let ?s = "snd (KMeansClustering_init example_env KMeansClustering_defaults example_start)"
  let ?e = "\<lparr>est_class = ''KMeans'',
      kwargs = [(''n_clusters'', PyInt 8), (''init'', PyStr ''k-means++''),
                (''n_init'', PyInt 10), (''max_iter'', PyInt 300),
                (''tol'', PyFloat (1 / 10000)), (''verbose'', PyInt 0),
                (''random_state'', PyNone), (''copy_x'', PyBool True),
                (''algorithm'', PyStr ''auto'')],
      fitted = []\<rparr>"
  let ?d = "[(''cluster_centers_'', PyList [PyList [PyFloat 1], PyList [PyFloat 2]]),
      (''labels_'', PyList [PyInt 0, PyInt 1]), (''inertia_'', PyFloat 0)]"
  have m: "model (self ?s) = Holds ?e"
    by (simp add: KMeansClustering_init_eq KMeansClustering_defaults_def)
  have hp: "heap ?s = (\<lambda>r. example_frame)"
    by (simp add: KMeansClustering_init_eq example_start_def)
  have ef: "estimator_fit example_env (heap ?s) ?e 0 = Inr ?d"
    by (simp add: example_env_def)
  have l: "map_of ?d ''labels_'' = Some (PyList [PyInt 0, PyInt 1])"
    by simp
  have len: "length [PyInt 0, PyInt 1] = nrows (heap ?s 0)"
    by (simp add: hp example_frame_def)
  show ?thesis
    using fit_stores_reference_to_callers_table [OF m ef l len]
    by (simp add: hp)
qed

text \<open>
  C9. A second \<^verbatim>\<open>get_labels()\<close> leaves every DataFrame, and the instance, as the first
  call left them: the column \<^verbatim>\<open>clustering result\<close> is overwritten in place with the same
  values, and no column is added.
\<close>

theorem get_labels_twice_leaves_table:
  "heap (snd (get_labels env (snd (get_labels env s)))) = heap (snd (get_labels env s)) \<and>
   self (snd (get_labels env (snd (get_labels env s)))) = self (snd (get_labels env s))"
  by (simp add: get_labels_heap_idem get_labels_self)

theorem get_labels_twice_leaves_table_witness:
  "columns (heap (snd (get_labels example_env (snd (get_labels example_env
       example_KMeans_fitted)))) 0) =
     [(''SiO2'', [PyFloat 1, PyFloat 2]), (''clustering result'', [PyInt 0, PyInt 1])] \<and>
   columns (heap example_KMeans_fitted 0) = [(''SiO2'', [PyFloat 1, PyFloat 2])]"
proof -
  have "heap (snd (get_labels example_env example_KMeans_fitted)) 0 =
      \<lparr>nrows = 2, columns = [(''SiO2'', [PyFloat 1, PyFloat 2]),
                             (''clustering result'', [PyInt 0, PyInt 1])]\<rparr>"
    using example_KMeans_labelled_eq by (simp add: example_KMeans_labelled_def)
  then show ?thesis
    using get_labels_twice_leaves_table [of example_env example_KMeans_fitted]
    by (simp add: example_KMeans_fitted_eq example_frame_def)
qed

text \<open>
  C10. On a fitted KMeans workflow whose two metric calls return,
  \<^verbatim>\<open>special_components\<close> raises \<^verbatim>\<open>KeyError\<close> when the table has no column
  \<^verbatim>\<open>clustering result\<close>, whatever the keyword arguments: it has printed the scores and
  nothing more, so the error is that of reading the labels column. When the table has the
  column, the silhouette diagram and its \<^verbatim>\<open>save_fig\<close> return and the keyword arguments
  have no \<^verbatim>\<open>components_num\<close>, it raises \<^verbatim>\<open>KeyError\<close> after the silhouette diagram is
  saved and before any scatter plot: the error is that of \<^verbatim>\<open>kwargs['components_num']\<close>.
\<close>

theorem KMeans_special_components_raises_KeyError:
  assumes "model (self s) = Holds e"
    and "est_getattr e ''inertia_'' = Some i"
    and "est_getattr e ''labels_'' = Some l"
    and "X (self s) = Holds r"
    and "call env (heap s) ''metrics.calinski_harabasz_score'' [Frame r, Value l] = Inr ch"
    and "call env (heap s) ''metrics.silhouette_score'' [Frame r, Value l] = Inr sil"
  shows "(map_of (columns (heap s r)) ''clustering result'' = None \<longrightarrow>
        KMeans_special_components env kw s =
          (Inl KeyError, s\<lparr>trace := trace s @
             [Print [Value (PyStr ''-----* KMeans Scores *-----'')],
              Print [Value (PyStr ''Inertia Score: ''), Value i],
              Call ''metrics.calinski_harabasz_score'' [Frame r, Value l],
              Print [Value (PyStr ''Calinski Harabasz Score: ''), Value ch],
              Call ''metrics.silhouette_score'' [Frame r, Value l],
              Print [Value (PyStr ''Silhouette Score: ''), Value sil]]\<rparr>)) \<and>
     (map_of (columns (heap s r)) ''clustering result'' = Some col \<and>
      map_of (hyper (self s)) ''n_clusters'' = Some n \<and>
      naming (self s) = Holds nm \<and>
      call env (heap s) ''plot_silhouette_diagram''
        [Frame r, Value (PyList col),
         Value (model_getattr_default (Some e) ''cluster_centers_'' no_cluster_centers),
         Value n, Value (PyStr nm)] = Inr v3 \<and>
      call env (heap s) ''save_fig''
        [Value (PyStr (''Silhouette Diagram - '' @ nm)),
         Value (PyStr (MODEL_OUTPUT_IMAGE_PATH env))] = Inr v4 \<and>
      map_of kw ''components_num'' = None \<longrightarrow>
        KMeans_special_components env kw s =
          (Inl KeyError, s\<lparr>trace := trace s @
             [Print [Value (PyStr ''-----* KMeans Scores *-----'')],
              Print [Value (PyStr ''Inertia Score: ''), Value i],
              Call ''metrics.calinski_harabasz_score'' [Frame r, Value l],
              Print [Value (PyStr ''Calinski Harabasz Score: ''), Value ch],
              Call ''metrics.silhouette_score'' [Frame r, Value l],
              Print [Value (PyStr ''Silhouette Score: ''), Value sil],
              Print [Value (PyStr ''-----* Clustering Centers *-----'')],
              Print [Value (model_getattr_default (Some e) ''cluster_centers_''
                              no_cluster_centers)],
              Print [Value (PyStr ''-----* Silhouette Diagram *-----'')],
              Call ''plot_silhouette_diagram''
                [Frame r, Value (PyList col),
                 Value (model_getattr_default (Some e) ''cluster_centers_''
                          no_cluster_centers),
                 Value n, Value (PyStr nm)],
              Call ''save_fig''
                [Value (PyStr (''Silhouette Diagram - '' @ nm)),
                 Value (PyStr (MODEL_OUTPUT_IMAGE_PATH env))]]\<rparr>))"
proof (intro conjI impI)
  assume "map_of (columns (heap s r)) ''clustering result'' = None"
  then show "KMeans_special_components env kw s =
      (Inl KeyError, s\<lparr>trace := trace s @
         [Print [Value (PyStr ''-----* KMeans Scores *-----'')],
          Print [Value (PyStr ''Inertia Score: ''), Value i],
          Call ''metrics.calinski_harabasz_score'' [Frame r, Value l],
          Print [Value (PyStr ''Calinski Harabasz Score: ''), Value ch],
          Call ''metrics.silhouette_score'' [Frame r, Value l],
          Print [Value (PyStr ''Silhouette Score: ''), Value sil]]\<rparr>)"
    using KMeans_special_components_no_column [OF assms, of kw]
    by (simp add: KMeans_scores_events_def)
next
  assume a: "map_of (columns (heap s r)) ''clustering result'' = Some col \<and>
      map_of (hyper (self s)) ''n_clusters'' = Some n \<and>
      naming (self s) = Holds nm \<and>
      call env (heap s) ''plot_silhouette_diagram''
        [Frame r, Value (PyList col),
         Value (model_getattr_default (Some e) ''cluster_centers_'' no_cluster_centers),
         Value n, Value (PyStr nm)] = Inr v3 \<and>
      call env (heap s) ''save_fig''
        [Value (PyStr (''Silhouette Diagram - '' @ nm)),
         Value (PyStr (MODEL_OUTPUT_IMAGE_PATH env))] = Inr v4 \<and>
      map_of kw ''components_num'' = None"
  then have col: "map_of (columns (heap s r)) ''clustering result'' = Some col"
    and n: "map_of (hyper (self s)) ''n_clusters'' = Some n"
    and nm: "naming (self s) = Holds nm"
    and c3: "call env (heap s) ''plot_silhouette_diagram''
        [Frame r, Value (PyList col),
         Value (model_getattr_default (Some e) ''cluster_centers_'' no_cluster_centers),
         Value n, Value (PyStr nm)] = Inr v3"
    and c4: "call env (heap s) ''save_fig''
        [Value (PyStr (''Silhouette Diagram - '' @ nm)),
         Value (PyStr (MODEL_OUTPUT_IMAGE_PATH env))] = Inr v4"
    and k: "map_of kw ''components_num'' = None"
    by simp_all
  show "KMeans_special_components env kw s =
      (Inl KeyError, s\<lparr>trace := trace s @
         [Print [Value (PyStr ''-----* KMeans Scores *-----'')],
          Print [Value (PyStr ''Inertia Score: ''), Value i],
          Call ''metrics.calinski_harabasz_score'' [Frame r, Value l],
          Print [Value (PyStr ''Calinski Harabasz Score: ''), Value ch],
          Call ''metrics.silhouette_score'' [Frame r, Value l],
          Print [Value (PyStr ''Silhouette Score: ''), Value sil],
          Print [Value (PyStr ''-----* Clustering Centers *-----'')],
          Print [Value (model_getattr_default (Some e) ''cluster_centers_''
                          no_cluster_centers)],
          Print [Value (PyStr ''-----* Silhouette Diagram *-----'')],
          Call ''plot_silhouette_diagram''
            [Frame r, Value (PyList col),
             Value (model_getattr_default (Some e) ''cluster_centers_''
                      no_cluster_centers),
             Value n, Value (PyStr nm)],
          Call ''save_fig''
            [Value (PyStr (''Silhouette Diagram - '' @ nm)),
             Value (PyStr (MODEL_OUTPUT_IMAGE_PATH env))]]\<rparr>)"
    using KMeans_special_components_eq
      [OF assms(1-4) col n nm assms(5,6) c3 c4, of kw] k
    by (simp add: KMeans_before_branch_def KMeans_scores_events_def
        KMeans_silhouette_events_def)
qed

theorem KMeans_special_components_raises_KeyError_witness:
  "fst (KMeans_special_components example_env [(''components_num'', PyInt 2)]
       example_KMeans_fitted) = Inl KeyError \<and>
   length (trace (snd (KMeans_special_components example_env [(''components_num'', PyInt 2)]
       example_KMeans_fitted))) = length (trace example_KMeans_fitted) + 6 \<and>
   fst (KMeans_special_components example_env [] example_KMeans_labelled) = Inl KeyError \<and>
   length (trace (snd (KMeans_special_components example_env [] example_KMeans_labelled))) =
     length (trace example_KMeans_labelled) + 11"
proof -
  have c: "\<And>h f args. call example_env h f args = Inr PyNone"
    by (simp add: example_env_def)
  have i: "est_getattr example_KMeans_estimator ''inertia_'' = Some (PyFloat 0)"
    and l: "est_getattr example_KMeans_estimator ''labels_'' = Some (PyList [PyInt 0, PyInt 1])"
    by (simp_all add: est_getattr_def example_KMeans_estimator_def)
  have m: "model (self example_KMeans_fitted) = Holds example_KMeans_estimator"
    and x: "X (self example_KMeans_fitted) = Holds 0"
    and nocol: "map_of (columns (heap example_KMeans_fitted 0)) ''clustering result'' = None"
    by (simp_all add: example_KMeans_fitted_eq example_frame_def)
  have m': "model (self example_KMeans_labelled) = Holds example_KMeans_estimator"
    and x': "X (self example_KMeans_labelled) = Holds 0"
    and nm: "naming (self example_KMeans_labelled) = Holds ''KMeans''"
    and n: "map_of (hyper (self example_KMeans_labelled)) ''n_clusters'' = Some (PyInt 2)"
    and col: "map_of (columns (heap example_KMeans_labelled 0)) ''clustering result'' =
        Some [PyInt 0, PyInt 1]"
    by (simp_all add: example_KMeans_labelled_eq example_KMeans_fitted_eq)
  have "fst (KMeans_special_components example_env [(''components_num'', PyInt 2)]
       example_KMeans_fitted) = Inl KeyError \<and>
     length (trace (snd (KMeans_special_components example_env [(''components_num'', PyInt 2)]
       example_KMeans_fitted))) = length (trace example_KMeans_fitted) + 6"
    using KMeans_special_components_raises_KeyError [OF m i l x c c, THEN conjunct1,
        of "[(''components_num'', PyInt 2)]"] nocol
    by simp
  moreover have "fst (KMeans_special_components example_env [] example_KMeans_labelled) =
      Inl KeyError \<and>
     length (trace (snd (KMeans_special_components example_env [] example_KMeans_labelled))) =
       length (trace example_KMeans_labelled) + 11"
    using KMeans_special_components_raises_KeyError [OF m' i l x' c c, THEN conjunct2,
        of "[PyInt 0, PyInt 1]" "PyInt 2" "''KMeans''" PyNone PyNone "[]"] col n nm
    by (simp add: c)
  ultimately show ?thesis by blast
qed

end
